theory Spec2Isabelle
  imports Complex_Main "HOL-Library.Sublist"
begin

section \<open>Common conventions\<close>

text \<open>
  The Astra pipeline is Python. Strings are modelled as \<^typ>\<open>string\<close>; dictionaries whose
  iteration order matters are association lists, the others are maps; a call that can raise
  returns \<open>exn + 'a\<close> with \<open>Inl\<close> for the exception. Clock readings (\<open>datetime.utcnow()\<close>) are
  integers (seconds), handed to every operation that reads the clock. The confidences of the
  capability agent are the constants 1, 0.9 and 0.7, written as rationals; the floating-point
  arithmetic of the memory search is not interpreted at all but taken from the environment.
\<close>

datatype exn = KeyError string | IndexError | ExternalError string

text \<open>\<open>str(n)\<close> for an integer\<close>

function digits :: "nat \<Rightarrow> string" where
  "digits n = (if n < 10 then [char_of (48 + n)] else digits (n div 10) @ [char_of (48 + n mod 10)])"
  by pat_completeness auto
termination
  by (relation "measure id") auto

definition str_int :: "int \<Rightarrow> string" where
  "str_int i = (if i < 0 then ''-'' @ digits (nat (- i)) else digits (nat i))"

definition day_seconds :: int where
  "day_seconds = 86400"

text \<open>\<open>sep.join(xs)\<close>\<close>

fun join :: "string \<Rightarrow> string list \<Rightarrow> string" where
  "join sep [] = []"
| "join sep [x] = x"
| "join sep (x # y # ys) = x @ sep @ join sep (y # ys)"

text \<open>\<open>str(xs)\<close> for a list of strings without quotes or backslashes in them\<close>

definition repr_list :: "string list \<Rightarrow> string" where
  "repr_list xs = ''['' @ join '', '' (map (\<lambda>x. [CHR 0x27] @ x @ [CHR 0x27]) xs) @ '']''"

definition blank_line :: string where
  "blank_line = [CHR 0x0A, CHR 0x0A]"

text \<open>
  Letter case on the ASCII range: \<open>lower_char\<close> is \<open>str.lower\<close> on one character, and two
  characters are equal without case when their lower-case forms are equal.
\<close>

definition lower_char :: "char \<Rightarrow> char" where
  "lower_char c =
     (let n = (of_char c :: nat) in if 65 \<le> n \<and> n \<le> 90 then char_of (n + 32) else c)"

text \<open>Whether \<open>s\<close> starts with \<open>p\<close>, letter case aside.\<close>

fun ci_prefix :: "string \<Rightarrow> string \<Rightarrow> bool" where
  "ci_prefix [] s = True"
| "ci_prefix (p # ps) [] = False"
| "ci_prefix (p # ps) (c # cs) = (if lower_char p = lower_char c then ci_prefix ps cs else False)"

section \<open>RAGMemory (rag\_memory.py)\<close>

subsection \<open>Memory types\<close>

definition FORBIDDEN :: "string list" where
  "FORBIDDEN = [''diagnosis_progress'', ''treatment_effectiveness'',
                ''emotional_dependency'', ''mental_health_inference'']"

definition ALLOWED :: "string list" where
  "ALLOWED = [''chat_history_summary'', ''user_preferences'', ''doctor_instructions'',
              ''reminders'', ''user_stated_goals'']"

definition is_allowed_memory_type :: "string \<Rightarrow> bool" where
  "is_allowed_memory_type memory_type =
     (if memory_type \<in> set FORBIDDEN then False else memory_type \<in> set ALLOWED)"

subsection \<open>State and collaborators\<close>

text \<open>
  One entry of \<open>self.metadata[profile_id]\<close>. The entries are written by \<open>_store_in_faiss\<close>
  only, so \<open>expires_at\<close> is always a timestamp that \<open>datetime.fromisoformat\<close> reads back.
\<close>

record 'm memory_meta =
  memory_id :: string
  memory_type :: string
  content :: string
  metadata :: "'m option"
  created_at :: int
  expires_at :: int

text \<open>
  \<open>self.indexes\<close> maps a profile to its FAISS index (the vectors added so far, in order);
  \<open>self.metadata\<close> maps a profile to the dictionary from vector id to metadata.
\<close>

record ('e, 'm) rag_state =
  indexes :: "string \<rightharpoonup> 'e list"
  metadata_of :: "string \<rightharpoonup> (int \<rightharpoonup> 'm memory_meta)"

text \<open>
  What the module does not define itself: the embedding model, the FAISS library
  (\<open>IndexFlatL2.search\<close> returns pairs of distance and vector id, id \<open>-1\<close> for a missing
  neighbour, and may raise), the hash behind the memory id, the flag \<open>FAISS_AVAILABLE\<close> and
  the truth value of \<open>self.db\<close>; and the floating-point arithmetic of numpy. Distances and
  similarities are values of a type \<open>'f\<close> (numpy's \<open>float32\<close>), the threshold is a value of a
  type \<open>'t\<close> (a Python float); \<open>fl_one\<close>, \<open>fl_add\<close> and \<open>fl_div\<close> are the constant 1, the
  sum and the quotient as numpy computes them (rounding, infinities and NaN included),
  \<open>fl_less x t\<close> is the comparison \<open>x < t\<close> and \<open>fl_at_least x t\<close> the comparison \<open>x >= t\<close> of
  a similarity with a threshold.
\<close>

record ('e, 'm, 'f, 't) rag_env =
  generate_embedding :: "string \<Rightarrow> 'e"
  faiss_search :: "'e list \<Rightarrow> 'e \<Rightarrow> int \<Rightarrow> exn + ('f \<times> int) list"
  generate_memory_id :: "string \<Rightarrow> string \<Rightarrow> string \<Rightarrow> int \<Rightarrow> string"
  fl_one :: 'f
  fl_add :: "'f \<Rightarrow> 'f \<Rightarrow> 'f"
  fl_div :: "'f \<Rightarrow> 'f \<Rightarrow> 'f"
  fl_less :: "'f \<Rightarrow> 't \<Rightarrow> bool"
  fl_at_least :: "'f \<Rightarrow> 't \<Rightarrow> bool"
  FAISS_AVAILABLE :: bool
  rag_db :: bool

record memory_result =
  mr_success :: bool
  mr_memory_id :: "string option"
  mr_memory_type :: string
  mr_expires_at :: "int option"
  mr_message :: string

subsection \<open>Content sanitisation\<close>

text \<open>
  \<open>re.sub(r'(?i)literal', repl, s)\<close> for a literal pattern: leftmost non-overlapping
  occurrences, compared without case, are replaced. The counter is the number of characters
  of the current match still to be skipped.
\<close>

fun sub_literal_ci :: "string \<Rightarrow> string \<Rightarrow> nat \<Rightarrow> string \<Rightarrow> string" where
  "sub_literal_ci p r n [] = []"
| "sub_literal_ci p r (Suc n) (c # cs) = sub_literal_ci p r n cs"
| "sub_literal_ci p r 0 (c # cs) =
     (if ci_prefix p (c # cs) then r @ sub_literal_ci p r (length p - 1) cs
      else c # sub_literal_ci p r 0 cs)"

definition diagnosis_patterns :: "string list" where
  "diagnosis_patterns = [''diagnosed with'', ''you have'', ''suffering from'', ''condition is'']"

definition effectiveness_patterns :: "string list" where
  "effectiveness_patterns =
     [''treatment is working'', ''medicine is effective'', ''getting better'', ''healing progress'']"

definition sanitize_content :: "string \<Rightarrow> string \<Rightarrow> string" where
  "sanitize_content content0 memory_type0 =
     foldl (\<lambda>sanitized pattern. sub_literal_ci pattern ''[REDACTED]'' 0 sanitized) content0
       (diagnosis_patterns @ effectiveness_patterns)"

subsection \<open>Write path\<close>

definition store_in_db :: "('e, 'm, 'f, 't) rag_env \<Rightarrow> bool" where
  "store_in_db env = (if \<not> rag_db env then True else True)"

text \<open>
  \<open>_store_in_faiss\<close>: the index of the profile is created on first use, the vector is added,
  and the metadata is filed under the vector's position \<open>ntotal - 1\<close>.
\<close>

definition store_in_faiss ::
  "('e, 'm, 'f, 't) rag_env \<Rightarrow> ('e, 'm) rag_state \<Rightarrow> string \<Rightarrow> string \<Rightarrow> 'e \<Rightarrow> string \<Rightarrow> string \<Rightarrow>
   'm option \<Rightarrow> int \<Rightarrow> int \<Rightarrow> bool \<times> ('e, 'm) rag_state" where
  "store_in_faiss env st profile_id mid embedding mtype cont md expires now =
     (let index = (case indexes st profile_id of None \<Rightarrow> [] | Some vs \<Rightarrow> vs) @ [embedding];
          metas = (case metadata_of st profile_id of None \<Rightarrow> Map.empty | Some m \<Rightarrow> m);
          vector_id = int (length index) - 1;
          entry = \<lparr>memory_id = mid, memory_type = mtype, content = cont, metadata = md,
                   created_at = now, expires_at = expires\<rparr>;
          _ = store_in_db env
      in (True, st\<lparr>indexes := (indexes st)(profile_id \<mapsto> index),
                   metadata_of := (metadata_of st)(profile_id \<mapsto> metas(vector_id \<mapsto> entry))\<rparr>))"

definition store_memory ::
  "('e, 'm, 'f, 't) rag_env \<Rightarrow> ('e, 'm) rag_state \<Rightarrow> string \<Rightarrow> string \<Rightarrow> string \<Rightarrow> 'm option \<Rightarrow> int \<Rightarrow>
   int \<Rightarrow> memory_result \<times> ('e, 'm) rag_state" where
  "store_memory env st profile_id mtype cont md ttl_days now =
     (if \<not> is_allowed_memory_type mtype then
        (\<lparr>mr_success = False, mr_memory_id = None, mr_memory_type = mtype, mr_expires_at = None,
          mr_message = ''Memory type '' @ [CHR 0x27] @ mtype @ [CHR 0x27]
                         @ '' is not allowed. Only allowed types: '' @ repr_list ALLOWED\<rparr>, st)
      else
        let sanitized_content = sanitize_content cont mtype;
            embedding = generate_embedding env sanitized_content;
            mid = generate_memory_id env profile_id mtype sanitized_content now;
            expires = now + ttl_days * day_seconds;
            (success, st') =
              (if FAISS_AVAILABLE env
               then store_in_faiss env st profile_id mid embedding mtype sanitized_content md expires now
               else (store_in_db env, st))
        in if success then
             (\<lparr>mr_success = True, mr_memory_id = Some mid, mr_memory_type = mtype,
               mr_expires_at = Some expires, mr_message = ''Memory stored successfully''\<rparr>, st')
           else
             (\<lparr>mr_success = False, mr_memory_id = None, mr_memory_type = mtype,
               mr_expires_at = None, mr_message = ''Failed to store memory''\<rparr>, st'))"

subsection \<open>Read path\<close>

record ('m, 'f) search_hit =
  hit_content :: string
  hit_similarity :: 'f
  hit_memory_id :: string
  hit_metadata :: "'m option"

text \<open>\<open>similarity = 1 / (1 + dist)\<close>, in the arithmetic of the environment.\<close>

definition similarity :: "('e, 'm, 'f, 't) rag_env \<Rightarrow> 'f \<Rightarrow> 'f" where
  "similarity env dst = fl_div env (fl_one env) (fl_add env (fl_one env) dst)"

text \<open>
  The loop of \<open>_search_faiss\<close> over \<open>zip(distances[0], indices[0])\<close>. The dictionary
  \<open>self.metadata[profile_id]\<close> is looked up only after the id and similarity tests; when the
  profile has no metadata dictionary that lookup raises KeyError.
\<close>

fun search_loop ::
  "('e, 'm, 'f, 't) rag_env \<Rightarrow> (int \<rightharpoonup> 'm memory_meta) option \<Rightarrow> string \<Rightarrow> string \<Rightarrow> 't \<Rightarrow>
   int \<Rightarrow> ('f \<times> int) list \<Rightarrow> exn + ('m, 'f) search_hit list" where
  "search_loop env metas profile_id mtype threshold now [] = Inr []"
| "search_loop env metas profile_id mtype threshold now ((dst, idx) # rest) =
     (if idx = -1 then search_loop env metas profile_id mtype threshold now rest
      else if fl_less env (similarity env dst) threshold then
        search_loop env metas profile_id mtype threshold now rest
      else (case metas of
          None \<Rightarrow> Inl (KeyError profile_id)
        | Some m \<Rightarrow>
          (case m idx of
             None \<Rightarrow> search_loop env metas profile_id mtype threshold now rest
           | Some meta \<Rightarrow>
               if memory_type meta \<noteq> mtype then
                 search_loop env metas profile_id mtype threshold now rest
               else if now > expires_at meta then
                 search_loop env metas profile_id mtype threshold now rest
               else (case search_loop env metas profile_id mtype threshold now rest of
                       Inl e \<Rightarrow> Inl e
                     | Inr results \<Rightarrow>
                         Inr (\<lparr>hit_content = content meta, hit_similarity = similarity env dst,
                               hit_memory_id = memory_id meta,
                               hit_metadata = metadata meta\<rparr> # results)))))"

text \<open>\<open>_search_faiss\<close>: any exception inside the \<open>try\<close> block gives the empty result.\<close>

definition search_faiss ::
  "('e, 'm, 'f, 't) rag_env \<Rightarrow> ('e, 'm) rag_state \<Rightarrow> string \<Rightarrow> 'e \<Rightarrow> string \<Rightarrow> int \<Rightarrow> 't \<Rightarrow>
   int \<Rightarrow> ('m, 'f) search_hit list" where
  "search_faiss env st profile_id query_embedding mtype top_k threshold now =
     (case indexes st profile_id of
        None \<Rightarrow> []
      | Some index \<Rightarrow>
          (case faiss_search env index query_embedding top_k of
             Inl e \<Rightarrow> []
           | Inr pairs \<Rightarrow>
               (case search_loop env (metadata_of st profile_id) profile_id mtype threshold now pairs of
                  Inl e \<Rightarrow> []
                | Inr results \<Rightarrow> results)))"

definition search_db :: "('e, 'm, 'f, 't) rag_env \<Rightarrow> ('m, 'f) search_hit list" where
  "search_db env = (if \<not> rag_db env then [] else [])"

definition retrieve ::
  "('e, 'm, 'f, 't) rag_env \<Rightarrow> ('e, 'm) rag_state \<Rightarrow> string \<Rightarrow> string \<Rightarrow> string \<Rightarrow> int \<Rightarrow> 't \<Rightarrow> int \<Rightarrow>
   string option" where
  "retrieve env st query context_type profile_id top_k threshold now =
     (if \<not> is_allowed_memory_type context_type then None
      else
        let query_embedding = generate_embedding env query;
            results =
              (if FAISS_AVAILABLE env
               then search_faiss env st profile_id query_embedding context_type top_k threshold now
               else search_db env)
        in if results = [] then None
           else Some (join blank_line (map hit_content results)))"

subsection \<open>The read path as the specification words it\<close>






subsection \<open>A small memory, for the examples\<close>

text \<open>In the example the arithmetic is the exact one of the rationals.\<close>

definition demo_env :: "(nat, unit, rat, rat) rag_env" where
  "demo_env = \<lparr>generate_embedding = length,
               faiss_search = (\<lambda>vs q k. Inr [(1/4, 0), (3, 1), (0, 2), (0, -1)]),
               generate_memory_id = (\<lambda>p t c n. p @ t),
               fl_one = 1, fl_add = (+), fl_div = (/), fl_less = (<),
               fl_at_least = (\<lambda>x t. t \<le> x),
               FAISS_AVAILABLE = True, rag_db = False\<rparr>"

definition demo_rag :: "(nat, unit) rag_state" where
  "demo_rag =
     \<lparr>indexes = [''p1'' \<mapsto> [3, 5, 7]],
      metadata_of = [''p1'' \<mapsto>
        [0 \<mapsto> \<lparr>memory_id = ''m0'', memory_type = ''user_preferences'', content = ''likes tea'',
                 metadata = None, created_at = 0, expires_at = 100\<rparr>,
         1 \<mapsto> \<lparr>memory_id = ''m1'', memory_type = ''user_preferences'', content = ''far away'',
                 metadata = None, created_at = 0, expires_at = 100\<rparr>,
         2 \<mapsto> \<lparr>memory_id = ''m2'', memory_type = ''user_preferences'', content = ''vegetarian'',
                 metadata = None, created_at = 0, expires_at = 100\<rparr>]]\<rparr>"

section \<open>ConsentManager (consent\_manager.py)\<close>

subsection \<open>Data\<close>

datatype consent_status = GRANTED | REVOKED | EXPIRED | PENDING | NOT_REQUESTED

text \<open>
  A timestamp as the store holds it, an ISO string: either one that
  \<open>datetime.fromisoformat\<close> reads as a naive UTC time, or one that it rejects or reads as a
  zone-aware time, which cannot be compared with \<open>datetime.utcnow()\<close>.
\<close>

datatype iso_time = Naive int | Unreadable

record consent_record =
  cr_id :: "string option"
  cr_granted_at :: "iso_time option"
  cr_expires_at :: "iso_time option"
  cr_revoked_at :: "iso_time option"

text \<open>
  The dictionary \<open>verify_consent\<close> returns. A key the dictionary does not hold reads as
  \<open>None\<close>, as \<open>dict.get\<close> does.
\<close>

record consent_result =
  granted :: bool
  consent_id :: "string option"
  granted_at :: "iso_time option"
  expires_at_of :: "iso_time option"
  purpose_of :: string
  revocable :: "bool option"
  status :: consent_status
  message :: string

type_synonym consent_cache_t = "string \<rightharpoonup> consent_result"

type_synonym consent_lookup = "string \<Rightarrow> string \<Rightarrow> string \<Rightarrow> consent_record option"

definition ASTRA_USAGE :: string where
  "ASTRA_USAGE = ''astra_usage''"

definition cache_key :: "string \<Rightarrow> string \<Rightarrow> string \<Rightarrow> string" where
  "cache_key user_id profile_id purpose = user_id @ '':'' @ profile_id @ '':'' @ purpose"

definition map_capability_to_purpose :: "string \<Rightarrow> string option" where
  "map_capability_to_purpose capability =
     map_of [(''DOCUMENT_INTERPRETATION'', ''document_upload''),
             (''SYMPTOM_DOCUMENTATION'', ''rag_memory_storage''),
             (''MEDICATION_REMINDER_CHAT'', ''rag_memory_storage''),
             (''HEALTH_TIMELINE'', ''health_timeline_access''),
             (''APPOINTMENT_BOOKING'', ''telemedicine_consultation'')] capability"

text \<open>
  \<open>_is_expired\<close>, on the \<open>expires_at\<close> entry of a record or of a cached result: no entry is
  never expired; an entry that cannot be read or compared counts as expired.
\<close>

fun is_expired :: "iso_time option \<Rightarrow> int \<Rightarrow> bool" where
  "is_expired None now = False"
| "is_expired (Some Unreadable) now = True"
| "is_expired (Some (Naive t)) now = (now > t)"

subsection \<open>The persistence layer as the source has it\<close>

text \<open>
  \<open>self.db\<close> is only ever tested for truth. The three store operations of the source are
  placeholders: with or without a connection they find, save and revoke nothing.
\<close>

definition get_consent_from_db :: "bool \<Rightarrow> consent_lookup" where
  "get_consent_from_db db user_id profile_id purpose = (if \<not> db then None else None)"

definition save_consent_to_db :: "bool \<Rightarrow> string \<Rightarrow> string \<Rightarrow> string \<Rightarrow> int \<Rightarrow> int \<Rightarrow> string option" where
  "save_consent_to_db db user_id profile_id purpose granted_time expires_time =
     (if \<not> db then None else None)"

definition revoke_consent_in_db :: "bool \<Rightarrow> string \<Rightarrow> string \<Rightarrow> string \<Rightarrow> int \<Rightarrow> bool" where
  "revoke_consent_in_db db user_id profile_id purpose revoked_time = (if \<not> db then False else False)"

subsection \<open>Verification\<close>

text \<open>
  The cache test both verifications start with: an entry under the key is used when
  \<open>_is_expired\<close> does not reject it.
\<close>

definition cached_valid :: "consent_cache_t \<Rightarrow> string \<Rightarrow> int \<Rightarrow> consent_result option" where
  "cached_valid cache key now =
     (case cache key of
        None \<Rightarrow> None
      | Some cached \<Rightarrow> if \<not> is_expired (expires_at_of cached) now then Some cached else None)"

text \<open>
  \<open>verify_astra_consent\<close> and \<open>verify_consent\<close>, with the method \<open>_get_consent_from_db\<close> they
  call as the first argument. Both return the result and the cache as they leave it.
\<close>

definition astra_not_requested :: consent_result where
  "astra_not_requested =
     \<lparr>granted = False, consent_id = None, granted_at = None, expires_at_of = None,
      purpose_of = ASTRA_USAGE, revocable = None, status = NOT_REQUESTED,
      message = ''Astra is a wellness and Ayurvedic knowledge companion. ''
                  @ ''It does not provide medical diagnosis or treatment. ''
                  @ ''All medical decisions must be taken by a qualified Ayurvedic doctor. ''
                  @ ''Please grant consent to Astra'' @ [CHR 0x27] @ ''s terms to continue.''\<rparr>"

definition verify_astra_consent ::
  "consent_lookup \<Rightarrow> consent_cache_t \<Rightarrow> string \<Rightarrow> string \<Rightarrow> int \<Rightarrow> consent_result \<times> consent_cache_t"
  where
  "verify_astra_consent lookup cache user_id profile_id now =
     (let purpose = ASTRA_USAGE;
          key = cache_key user_id profile_id purpose;
          hit = cached_valid cache key now
      in case hit of
           Some cached \<Rightarrow> (cached, cache)
         | None \<Rightarrow>
            (case lookup user_id profile_id purpose of
               None \<Rightarrow> (astra_not_requested, cache)
             | Some r \<Rightarrow>
                 if cr_revoked_at r \<noteq> None \<or> is_expired (cr_expires_at r) now then
                   (\<lparr>granted = False, consent_id = None, granted_at = None, expires_at_of = None,
                     purpose_of = purpose, revocable = None,
                     status = (if cr_revoked_at r \<noteq> None then REVOKED else EXPIRED),
                     message = ''Your Astra usage consent has expired or been revoked. ''
                                 @ ''Please re-grant consent to continue.''\<rparr>, cache)
                 else
                   (let result = \<lparr>granted = True, consent_id = cr_id r,
                                   granted_at = cr_granted_at r, expires_at_of = cr_expires_at r,
                                   purpose_of = purpose, revocable = Some True, status = GRANTED,
                                   message = ''Astra usage consent is valid''\<rparr>
                    in (result, cache(key \<mapsto> result)))))"

text \<open>\<open>not purpose\<close>: no purpose was passed, or the empty string.\<close>

fun falsy :: "string option \<Rightarrow> bool" where
  "falsy None = True"
| "falsy (Some s) = (s = [])"

definition verify_consent ::
  "consent_lookup \<Rightarrow> consent_cache_t \<Rightarrow> string \<Rightarrow> string \<Rightarrow> string \<Rightarrow> string option \<Rightarrow> int \<Rightarrow>
   consent_result \<times> consent_cache_t" where
  "verify_consent lookup cache0 user_id profile_id capability purpose0 now =
     (let (astra_consent, cache) = verify_astra_consent lookup cache0 user_id profile_id now in
      if \<not> granted astra_consent then (astra_consent, cache)
      else
        let purpose1 = (if falsy purpose0 then map_capability_to_purpose capability else purpose0) in
        if falsy purpose1 then
          (\<lparr>granted = True, consent_id = consent_id astra_consent,
            granted_at = granted_at astra_consent, expires_at_of = expires_at_of astra_consent,
            purpose_of = ''astra_usage'', revocable = Some True, status = GRANTED,
            message = ''Astra usage consent is valid''\<rparr>, cache)
        else
          let purpose = the purpose1;
              key = cache_key user_id profile_id purpose;
              hit = cached_valid cache key now
          in case hit of
               Some cached \<Rightarrow> (cached, cache)
             | None \<Rightarrow>
                (case lookup user_id profile_id purpose of
                   None \<Rightarrow>
                     (\<lparr>granted = False, consent_id = None, granted_at = None, expires_at_of = None,
                       purpose_of = purpose, revocable = Some True, status = NOT_REQUESTED,
                       message = ''Purpose-specific consent required for '' @ purpose
                                   @ ''. Please grant consent in your profile settings.''\<rparr>, cache)
                 | Some r \<Rightarrow>
                     if cr_revoked_at r \<noteq> None then
                       (\<lparr>granted = False, consent_id = cr_id r, granted_at = cr_granted_at r,
                         expires_at_of = cr_expires_at r, purpose_of = purpose,
                         revocable = Some True, status = REVOKED,
                         message = ''Consent has been revoked. Please grant consent again if needed.''\<rparr>,
                        cache)
                     else if is_expired (cr_expires_at r) now then
                       (\<lparr>granted = False, consent_id = cr_id r, granted_at = cr_granted_at r,
                         expires_at_of = cr_expires_at r, purpose_of = purpose,
                         revocable = Some True, status = EXPIRED,
                         message = ''Consent has expired. Please renew consent.''\<rparr>, cache)
                     else
                       (let result = \<lparr>granted = True, consent_id = cr_id r,
                                       granted_at = cr_granted_at r, expires_at_of = cr_expires_at r,
                                       purpose_of = purpose, revocable = Some True, status = GRANTED,
                                       message = ''Consent is active and valid''\<rparr>
                        in (result, cache(key \<mapsto> result)))))"

subsection \<open>The manager object\<close>

record consent_manager =
  cm_db :: bool
  consent_cache :: consent_cache_t

definition new_consent_manager :: "bool \<Rightarrow> consent_manager" where
  "new_consent_manager db_connection = \<lparr>cm_db = db_connection, consent_cache = Map.empty\<rparr>"

definition cm_verify_consent ::
  "consent_manager \<Rightarrow> string \<Rightarrow> string \<Rightarrow> string \<Rightarrow> string option \<Rightarrow> int \<Rightarrow>
   consent_result \<times> consent_manager" where
  "cm_verify_consent cm user_id profile_id capability purpose now =
     (let (res, cache) = verify_consent (get_consent_from_db (cm_db cm)) (consent_cache cm)
                           user_id profile_id capability purpose now
      in (res, cm\<lparr>consent_cache := cache\<rparr>))"

record grant_result =
  gr_success :: bool
  gr_consent_id :: "string option"
  gr_granted_at :: "int option"
  gr_expires_at :: "int option"

definition grant_consent ::
  "consent_manager \<Rightarrow> string \<Rightarrow> string \<Rightarrow> string \<Rightarrow> int \<Rightarrow> int \<Rightarrow> grant_result \<times> consent_manager"
  where
  "grant_consent cm user_id profile_id purpose duration_days now =
     (let granted_at = now;
          expires_at = granted_at + duration_days * day_seconds
      in case save_consent_to_db (cm_db cm) user_id profile_id purpose granted_at expires_at of
           Some cid \<Rightarrow>
             (\<lparr>gr_success = True, gr_consent_id = Some cid, gr_granted_at = Some granted_at,
               gr_expires_at = Some expires_at\<rparr>,
              cm\<lparr>consent_cache := (consent_cache cm)(cache_key user_id profile_id purpose := None)\<rparr>)
         | None \<Rightarrow>
             (\<lparr>gr_success = False, gr_consent_id = None, gr_granted_at = None,
               gr_expires_at = None\<rparr>, cm))"

definition revoke_consent ::
  "consent_manager \<Rightarrow> string \<Rightarrow> string \<Rightarrow> string \<Rightarrow> int \<Rightarrow> (bool \<times> int option) \<times> consent_manager"
  where
  "revoke_consent cm user_id profile_id purpose now =
     (let revoked_at = now in
      if revoke_consent_in_db (cm_db cm) user_id profile_id purpose revoked_at then
        ((True, Some revoked_at),
         cm\<lparr>consent_cache := (consent_cache cm)(cache_key user_id profile_id purpose := None)\<rparr>)
      else ((False, None), cm))"

subsection \<open>A small consent store, for the examples\<close>

text \<open>
  User \<open>u1\<close>, profile \<open>p1\<close>: Astra usage consent valid until time 1000, and a consent for the
  health timeline that was revoked at time 3 and would have expired at time 5.
\<close>

definition demo_lookup :: consent_lookup where
  "demo_lookup user_id profile_id purpose =
     (if purpose = ''astra_usage'' then
        Some \<lparr>cr_id = Some ''c1'', cr_granted_at = Some (Naive 0),
              cr_expires_at = Some (Naive 1000), cr_revoked_at = None\<rparr>
      else if purpose = ''health_timeline_access'' then
        Some \<lparr>cr_id = Some ''c2'', cr_granted_at = Some (Naive 0),
              cr_expires_at = Some (Naive 5), cr_revoked_at = Some (Naive 3)\<rparr>
      else None)"

definition demo_astra_result :: consent_result where
  "demo_astra_result =
     \<lparr>granted = True, consent_id = Some ''c1'', granted_at = Some (Naive 0),
      expires_at_of = Some (Naive 1000), purpose_of = ''astra_usage'', revocable = Some True,
      status = GRANTED, message = ''Astra usage consent is valid''\<rparr>"

definition demo_stale_result :: consent_result where
  "demo_stale_result =
     \<lparr>granted = True, consent_id = Some ''c2'', granted_at = Some (Naive 0),
      expires_at_of = None, purpose_of = ''health_timeline_access'', revocable = Some True,
      status = GRANTED, message = ''Consent is active and valid''\<rparr>"

section \<open>CapabilityAgent (capability\_agent.py)\<close>

subsection \<open>The configuration file\<close>

text \<open>
  \<open>capabilities.yaml\<close> is read once, at construction. Its content is a parameter of the
  model: the capability definitions in file order, the safety rules in file order, the
  refusal library, the doctor hand-off message and the settings of the scan of generated
  text. A key that an entry does not hold is \<open>None\<close>.
\<close>

record cap_def =
  cd_intent_class :: "string option"
  cd_forbidden :: "bool option"
  cd_triggers :: "string list option"
  cd_requires_ai :: "bool option"
  cd_requires_consent :: "bool option"
  cd_rate_limit :: "string option"
  cd_priority :: "int option"
  cd_reason :: "string option"
  cd_redirect_to :: "string option"
  cd_safety_rules :: "string list option"
  cd_rag_context :: "string option"
  cd_response_template :: "string option"
  cd_automation :: "string option"
  cd_description :: "string option"
  cd_allowed_topics :: "string list option"

record safety_rule =
  sr_patterns :: "string list option"
  sr_replacement :: "string option"

text \<open>
  An entry of the refusal library; \<open>re_extra\<close> says whether the entry has keys besides the
  four that are read, which matters only for the truth value of the entry.
\<close>

record refusal_entry =
  re_messages :: "string list option"
  re_refusal_code :: "string option"
  re_handoff :: "bool option"
  re_hard_stop :: "bool option"
  re_extra :: bool

record config =
  capabilities :: "(string \<times> cap_def) list"
  safety_rules :: "(string \<times> safety_rule) list"
  refusal_library :: "string \<rightharpoonup> (string \<rightharpoonup> refusal_entry)"
  doctor_handoff_cta :: "string option"
  scan_forbidden_patterns :: "string list"
  scan_action :: "string option"

definition opt_default :: "'a \<Rightarrow> 'a option \<Rightarrow> 'a" where
  "opt_default d v = (case v of None \<Rightarrow> d | Some x \<Rightarrow> x)"

subsection \<open>Text helpers\<close>

text \<open>
  \<open>str.lower\<close>, \<open>str.strip\<close> and the word characters of \<open>re\<close>, on the ASCII range; a
  character outside it is left alone by \<open>lower\<close> and is neither space nor word character.
\<close>

definition lower :: "string \<Rightarrow> string" where
  "lower s = map lower_char s"

definition is_space :: "char \<Rightarrow> bool" where
  "is_space c = (let n = (of_char c :: nat) in (9 \<le> n \<and> n \<le> 13) \<or> (28 \<le> n \<and> n \<le> 32))"

definition strip :: "string \<Rightarrow> string" where
  "strip s = rev (dropWhile is_space (rev (dropWhile is_space s)))"

definition is_word_char :: "char \<Rightarrow> bool" where
  "is_word_char c =
     (let n = (of_char c :: nat)
      in (48 \<le> n \<and> n \<le> 57) \<or> (65 \<le> n \<and> n \<le> 90) \<or> n = 95 \<or> (97 \<le> n \<and> n \<le> 122))"

fun is_word :: "char option \<Rightarrow> bool" where
  "is_word None = False"
| "is_word (Some c) = is_word_char c"

text \<open>\<open>\b\<close> between two neighbouring positions (\<open>None\<close> at either end of the text).\<close>

definition word_boundary :: "char option \<Rightarrow> char option \<Rightarrow> bool" where
  "word_boundary before after = (is_word before \<noteq> is_word after)"

fun nth_opt :: "'a list \<Rightarrow> nat \<Rightarrow> 'a option" where
  "nth_opt [] n = None"
| "nth_opt (x # xs) 0 = Some x"
| "nth_opt (x # xs) (Suc n) = nth_opt xs n"

text \<open>
  The pattern \<open>\b<trigger>\b\<close> with \<open>re.IGNORECASE\<close>, tried at the start of \<open>s\<close>, where
  \<open>prev\<close> is the character before \<open>s\<close>.
\<close>

definition trigger_matches_here :: "string \<Rightarrow> char option \<Rightarrow> string \<Rightarrow> bool" where
  "trigger_matches_here trigger prev s =
     (ci_prefix trigger s
      \<and> word_boundary prev (nth_opt s 0)
      \<and> word_boundary (if trigger = [] then prev else nth_opt s (length trigger - 1))
                       (nth_opt s (length trigger)))"

text \<open>\<open>pattern.search(text)\<close> for such a pattern.\<close>

fun trigger_search_from :: "string \<Rightarrow> char option \<Rightarrow> string \<Rightarrow> bool" where
  "trigger_search_from trigger prev [] = trigger_matches_here trigger prev []"
| "trigger_search_from trigger prev (c # cs) =
     (trigger_matches_here trigger prev (c # cs) \<or> trigger_search_from trigger (Some c) cs)"

definition trigger_search :: "string \<Rightarrow> string \<Rightarrow> bool" where
  "trigger_search trigger text = trigger_search_from trigger None text"

definition re_special :: string where
  "re_special = ''()[]{}?*+-|^$.&~# '' @ [CHR 0x5C, CHR 0x09, CHR 0x0A, CHR 0x0D, CHR 0x0B, CHR 0x0C]"

definition re_escape :: "string \<Rightarrow> string" where
  "re_escape s = concat (map (\<lambda>c. if c \<in> set re_special then [CHR 0x5C, c] else [c]) s)"

definition pattern_source :: "string \<Rightarrow> string" where
  "pattern_source trigger = [CHR 0x5C] @ ''b'' @ re_escape trigger @ [CHR 0x5C] @ ''b''"

subsection \<open>Identification\<close>

record intent_result =
  ir_capability :: string
  ir_intent_class :: string
  ir_confidence :: rat
  ir_matched_trigger :: string
  ir_requires_ai :: "bool option"
  ir_requires_consent :: "bool option"
  ir_rate_limit :: "string option"
  ir_forbidden :: bool
  ir_reason :: "string option"
  ir_redirect_to :: "string option"
  ir_priority :: int
  definition_of :: cap_def

definition emergency_keywords :: "string list" where
  "emergency_keywords =
     [''emergency'', ''urgent'', ''heart attack'', ''chest pain'',
      ''can'' @ [CHR 0x27] @ ''t breathe'', ''cannot breathe'', ''breathlessness'',
      ''bleeding'', ''severe bleeding'', ''unconscious'', ''loss of consciousness'',
      ''seizure'', ''stroke'', ''sudden paralysis'', ''severe pain'',
      ''high fever'', ''suicidal'', ''self harm'', ''help me'']"

definition is_emergency :: "string \<Rightarrow> bool" where
  "is_emergency text = list_ex (\<lambda>keyword. sublist keyword text) emergency_keywords"

definition is_forbidden_def :: "cap_def \<Rightarrow> bool" where
  "is_forbidden_def d = opt_default False (cd_forbidden d)"

text \<open>
  \<open>_compile_forbidden\<close> and \<open>_compile_triggers\<close>: the capabilities with triggers, forbidden or
  not, each with its triggers, in file order.
\<close>

definition forbidden_patterns :: "config \<Rightarrow> (string \<times> string list) list" where
  "forbidden_patterns cfg =
     [(name, the (cd_triggers d)). (name, d) \<leftarrow> capabilities cfg,
        is_forbidden_def d \<and> cd_triggers d \<noteq> None]"

definition trigger_patterns :: "config \<Rightarrow> (string \<times> string list) list" where
  "trigger_patterns cfg =
     [(name, the (cd_triggers d)). (name, d) \<leftarrow> capabilities cfg,
        cd_triggers d \<noteq> None \<and> \<not> is_forbidden_def d]"

text \<open>\<open>self.capabilities['capabilities'][name]\<close> raises KeyError for an unknown name.\<close>

definition cap_lookup :: "config \<Rightarrow> string \<Rightarrow> exn + cap_def" where
  "cap_lookup cfg name =
     (case map_of (capabilities cfg) name of None \<Rightarrow> Inl (KeyError name) | Some d \<Rightarrow> Inr d)"

definition build_result :: "config \<Rightarrow> string \<Rightarrow> rat \<Rightarrow> string \<Rightarrow> exn + intent_result" where
  "build_result cfg name conf trigger =
     (case cap_lookup cfg name of
        Inl e \<Rightarrow> Inl e
      | Inr d \<Rightarrow>
          Inr \<lparr>ir_capability = name, ir_intent_class = opt_default ''CLASS_A'' (cd_intent_class d),
               ir_confidence = conf, ir_matched_trigger = trigger,
               ir_requires_ai = Some (opt_default False (cd_requires_ai d)),
               ir_requires_consent = Some (opt_default False (cd_requires_consent d)),
               ir_rate_limit = Some (opt_default ''default'' (cd_rate_limit d)),
               ir_forbidden = opt_default False (cd_forbidden d),
               ir_reason = None, ir_redirect_to = None,
               ir_priority = opt_default 3 (cd_priority d), definition_of = d\<rparr>)"

definition forbidden_result :: "string \<Rightarrow> cap_def \<Rightarrow> string \<Rightarrow> intent_result" where
  "forbidden_result name d trigger =
     \<lparr>ir_capability = name, ir_intent_class = opt_default ''CLASS_C'' (cd_intent_class d),
      ir_confidence = 1, ir_matched_trigger = pattern_source trigger,
      ir_requires_ai = None, ir_requires_consent = None, ir_rate_limit = None,
      ir_forbidden = True,
      ir_reason = Some (opt_default ''This action is not allowed'' (cd_reason d)),
      ir_redirect_to = Some (opt_default ''APPOINTMENT_BOOKING'' (cd_redirect_to d)),
      ir_priority = opt_default 1 (cd_priority d), definition_of = d\<rparr>"

text \<open>\<open>_check_forbidden\<close>: the first pattern, in file order, that matches.\<close>

fun first_trigger :: "string list \<Rightarrow> string \<Rightarrow> string option" where
  "first_trigger [] text = None"
| "first_trigger (t # ts) text = (if trigger_search t text then Some t else first_trigger ts text)"

fun check_forbidden_loop :: "config \<Rightarrow> (string \<times> string list) list \<Rightarrow> string \<Rightarrow> exn + intent_result option"
  where
  "check_forbidden_loop cfg [] text = Inr None"
| "check_forbidden_loop cfg ((name, triggers) # rest) text =
     (case first_trigger triggers text of
        Some t \<Rightarrow> (case cap_lookup cfg name of
                     Inl e \<Rightarrow> Inl e
                   | Inr d \<Rightarrow> Inr (Some (forbidden_result name d t)))
      | None \<Rightarrow> check_forbidden_loop cfg rest text)"

definition check_forbidden :: "config \<Rightarrow> string \<Rightarrow> exn + intent_result option" where
  "check_forbidden cfg text = check_forbidden_loop cfg (forbidden_patterns cfg) text"

definition trigger_result :: "string \<Rightarrow> cap_def \<Rightarrow> string \<Rightarrow> intent_result" where
  "trigger_result name d trigger =
     \<lparr>ir_capability = name, ir_intent_class = opt_default ''CLASS_A'' (cd_intent_class d),
      ir_confidence = 9 / 10, ir_matched_trigger = pattern_source trigger,
      ir_requires_ai = Some (opt_default False (cd_requires_ai d)),
      ir_requires_consent = Some (opt_default False (cd_requires_consent d)),
      ir_rate_limit = Some (opt_default ''default'' (cd_rate_limit d)),
      ir_forbidden = False, ir_reason = None, ir_redirect_to = None,
      ir_priority = opt_default 3 (cd_priority d), definition_of = d\<rparr>"

text \<open>\<open>_match_triggers\<close>: one match for every pattern that is found, in file order.\<close>

fun match_triggers_loop :: "config \<Rightarrow> (string \<times> string list) list \<Rightarrow> string \<Rightarrow> exn + intent_result list"
  where
  "match_triggers_loop cfg [] text = Inr []"
| "match_triggers_loop cfg ((name, triggers) # rest) text =
     (case filter (\<lambda>t. trigger_search t text) triggers of
        [] \<Rightarrow> match_triggers_loop cfg rest text
      | found \<Rightarrow>
          (case cap_lookup cfg name of
             Inl e \<Rightarrow> Inl e
           | Inr d \<Rightarrow>
               (case match_triggers_loop cfg rest text of
                  Inl e \<Rightarrow> Inl e
                | Inr ms \<Rightarrow> Inr (map (trigger_result name d) found @ ms))))"

definition match_triggers :: "config \<Rightarrow> string \<Rightarrow> exn + intent_result list" where
  "match_triggers cfg text = match_triggers_loop cfg (trigger_patterns cfg) text"

text \<open>
  \<open>min(matches, key=lambda x: (x['priority'], -x['confidence']))\<close>: the first match whose key
  no other match is below.
\<close>

definition key_less :: "intent_result \<Rightarrow> intent_result \<Rightarrow> bool" where
  "key_less x y =
     (ir_priority x < ir_priority y \<or> (ir_priority x = ir_priority y \<and> - ir_confidence x < - ir_confidence y))"

definition best_of :: "intent_result \<Rightarrow> intent_result list \<Rightarrow> intent_result" where
  "best_of m ms = foldl (\<lambda>best x. if key_less x best then x else best) m ms"

definition identify_capability :: "config \<Rightarrow> string \<Rightarrow> exn + intent_result" where
  "identify_capability cfg user_input =
     (let normalized = strip (lower user_input) in
      if is_emergency normalized then build_result cfg ''EMERGENCY_REDIRECT'' 1 ''emergency''
      else
        (case check_forbidden cfg normalized of
           Inl e \<Rightarrow> Inl e
         | Inr (Some forbidden_hit) \<Rightarrow> Inr forbidden_hit
         | Inr None \<Rightarrow>
             (case match_triggers cfg normalized of
                Inl e \<Rightarrow> Inl e
              | Inr (m # ms) \<Rightarrow> Inr (best_of m ms)
              | Inr [] \<Rightarrow> build_result cfg ''GENERAL_WELLNESS_CHAT'' (7 / 10) ''default'')))"

section \<open>SafetyEnforcer (safety\_enforcer.py)\<close>

record safety_result =
  sf_safe :: bool
  sf_violations :: "string list"
  sf_message :: string
  sf_blocked_patterns :: "string list"
  sf_intent_class :: string
  sf_handoff :: bool
  sf_hard_stop :: bool
  sf_refusal_code :: string

record refusal_info =
  ri_message :: string
  ri_refusal_code :: string
  ri_handoff :: bool
  ri_hard_stop :: bool

definition default_refusal_message :: string where
  "default_refusal_message =
     ''I cannot help with medical decisions. Please consult a qualified Ayurvedic doctor.''"

definition default_refusal :: refusal_info where
  "default_refusal =
     \<lparr>ri_message = default_refusal_message, ri_refusal_code = ''REF_GEN_001'',
      ri_handoff = True, ri_hard_stop = False\<rparr>"

definition cap_to_refusal :: "string \<Rightarrow> string option" where
  "cap_to_refusal capability_name =
     map_of [(''DIAGNOSIS'', ''DIAGNOSIS_CONFIRMATION''), (''PRESCRIPTION'', ''MEDICINE_REQUEST''),
             (''TREATMENT_MODIFICATION'', ''DOSAGE_CHANGE''), (''EMERGENCY_REDIRECT'', ''EMERGENCY'')]
       capability_name"

text \<open>The truth value of a dictionary read from the library: present and not empty.\<close>

fun entry_truthy :: "refusal_entry option \<Rightarrow> bool" where
  "entry_truthy None = False"
| "entry_truthy (Some e) =
     (re_messages e \<noteq> None \<or> re_refusal_code e \<noteq> None \<or> re_handoff e \<noteq> None
      \<or> re_hard_stop e \<noteq> None \<or> re_extra e)"

text \<open>
  \<open>random.choice(xs)\<close>, with the random draw as an argument; it raises IndexError on an
  empty list.
\<close>

definition random_choice :: "nat \<Rightarrow> 'a list \<Rightarrow> exn + 'a" where
  "random_choice draw xs = (if xs = [] then Inl IndexError else Inr (xs ! (draw mod length xs)))"

definition get_refusal_info :: "config \<Rightarrow> nat \<Rightarrow> string \<Rightarrow> string \<Rightarrow> exn + refusal_info" where
  "get_refusal_info cfg draw intent_cls capability_name =
     (let class_refusals = (case refusal_library cfg intent_cls of None \<Rightarrow> Map.empty | Some m \<Rightarrow> m);
          refusal_key = cap_to_refusal capability_name;
          refusal_data0 = (case refusal_key of None \<Rightarrow> None | Some k \<Rightarrow> class_refusals k);
          refusal_data = (if \<not> entry_truthy refusal_data0 \<and> intent_cls = ''CLASS_D''
                          then class_refusals ''EMERGENCY'' else refusal_data0)
      in if entry_truthy refusal_data then
           (let e = the refusal_data;
                messages = opt_default [default_refusal_message] (re_messages e)
            in case random_choice draw messages of
                 Inl err \<Rightarrow> Inl err
               | Inr msg \<Rightarrow>
                   Inr \<lparr>ri_message = msg,
                        ri_refusal_code = opt_default ''REF_UNKNOWN'' (re_refusal_code e),
                        ri_handoff = opt_default False (re_handoff e),
                        ri_hard_stop = opt_default False (re_hard_stop e)\<rparr>)
         else Inr default_refusal)"

text \<open>
  The rule patterns of the configuration are arbitrary regular expressions; \<open>re_search p t\<close>
  stands for \<open>re.compile(p).search(t)\<close>. The loop collects, for every applicable rule that has
  patterns, the rule's name and the pattern once per pattern found in the text.
\<close>

definition rule_hits :: "(string \<Rightarrow> string \<Rightarrow> bool) \<Rightarrow> config \<Rightarrow> string \<Rightarrow> string list \<Rightarrow> (string \<times> string) list"
  where
  "rule_hits re_search cfg text applicable_rules =
     concat (map (\<lambda>rule_name.
       (case map_of (safety_rules cfg) rule_name of
          None \<Rightarrow> []
        | Some rule \<Rightarrow>
            (case sr_patterns rule of
               None \<Rightarrow> []
             | Some pats \<Rightarrow> map (\<lambda>pat. (rule_name, pat)) (filter (\<lambda>pat. re_search pat text) pats))))
       applicable_rules)"

definition cap_def_falsy :: "cap_def option \<Rightarrow> bool" where
  "cap_def_falsy d = (d = None)"

definition enforce ::
  "config \<Rightarrow> (string \<Rightarrow> string \<Rightarrow> bool) \<Rightarrow> nat \<Rightarrow> string \<Rightarrow> string \<Rightarrow> string \<Rightarrow> exn + safety_result"
  where
  "enforce cfg re_search draw text capability_name intent_cls =
     (if intent_cls \<in> set [''CLASS_C'', ''CLASS_D''] then
        (case get_refusal_info cfg draw intent_cls capability_name of
           Inl e \<Rightarrow> Inl e
         | Inr info \<Rightarrow>
             Inr \<lparr>sf_safe = False, sf_violations = [intent_cls], sf_message = ri_message info,
                  sf_blocked_patterns = [], sf_intent_class = intent_cls,
                  sf_handoff = ri_handoff info, sf_hard_stop = ri_hard_stop info,
                  sf_refusal_code = ri_refusal_code info\<rparr>)
      else
        let cap = map_of (capabilities cfg) capability_name;
            applicable_rules =
              (if cap_def_falsy cap then map fst (safety_rules cfg)
               else opt_default [] (cd_safety_rules (the cap)));
            hits = rule_hits re_search cfg text applicable_rules
        in case hits of
             (first_violation, pat) # others \<Rightarrow>
               Inr \<lparr>sf_safe = False, sf_violations = map fst hits,
                    sf_message =
                      opt_default
                        ''I cannot provide this information. Please consult a licensed healthcare professional.''
                        (sr_replacement (the (map_of (safety_rules cfg) first_violation))),
                    sf_blocked_patterns = map snd hits, sf_intent_class = intent_cls,
                    sf_handoff = False, sf_hard_stop = False,
                    sf_refusal_code = ''SAFETY_RULE_VIOLATION''\<rparr>
           | [] \<Rightarrow>
               Inr \<lparr>sf_safe = True, sf_violations = [], sf_message = [], sf_blocked_patterns = [],
                    sf_intent_class = intent_cls, sf_handoff = False, sf_hard_stop = False,
                    sf_refusal_code = []\<rparr>)"

subsection \<open>The refusal lookup as the specification words it\<close>

text \<open>
  The entry keyed by the intent class and the capability's refusal key; failing that, for
  \<open>CLASS_D\<close>, the class's \<open>EMERGENCY\<close> entry; failing that none, which stands for the
  hard-coded default.
\<close>

definition selected_refusal :: "config \<Rightarrow> string \<Rightarrow> string \<Rightarrow> refusal_entry option" where
  "selected_refusal cfg intent_cls capability_name =
     (let lib = (case refusal_library cfg intent_cls of None \<Rightarrow> Map.empty | Some m \<Rightarrow> m);
          specific = (case cap_to_refusal capability_name of None \<Rightarrow> None | Some k \<Rightarrow> lib k)
      in if entry_truthy specific then specific
         else if intent_cls = ''CLASS_D'' \<and> entry_truthy (lib ''EMERGENCY'') then lib ''EMERGENCY''
         else None)"

subsection \<open>A small configuration, for the examples\<close>

definition empty_cap :: cap_def where
  "empty_cap =
     \<lparr>cd_intent_class = None, cd_forbidden = None, cd_triggers = None, cd_requires_ai = None,
      cd_requires_consent = None, cd_rate_limit = None, cd_priority = None, cd_reason = None,
      cd_redirect_to = None, cd_safety_rules = None, cd_rag_context = None,
      cd_response_template = None, cd_automation = None, cd_description = None,
      cd_allowed_topics = None\<rparr>"

definition demo_config :: config where
  "demo_config =
     \<lparr>capabilities =
        [(''GENERAL_WELLNESS_CHAT'',
            empty_cap\<lparr>cd_intent_class := Some ''CLASS_A'', cd_requires_ai := Some True,
                       cd_safety_rules := Some [''no_diagnosis'']\<rparr>),
         (''PRESCRIPTION'',
            empty_cap\<lparr>cd_intent_class := Some ''CLASS_C'', cd_forbidden := Some True,
                       cd_triggers := Some [''prescribe'']\<rparr>),
         (''EMERGENCY_REDIRECT'',
            empty_cap\<lparr>cd_intent_class := Some ''CLASS_D'', cd_priority := Some 1\<rparr>)],
      safety_rules =
        [(''no_diagnosis'', \<lparr>sr_patterns = Some [''diagnos''], sr_replacement = None\<rparr>)],
      refusal_library =
        [''CLASS_C'' \<mapsto>
           [''MEDICINE_REQUEST'' \<mapsto>
              \<lparr>re_messages = Some [''I cannot suggest medicines.'', ''Medicines need a doctor.''],
               re_refusal_code = Some ''REF_MED_001'', re_handoff = Some True,
               re_hard_stop = None, re_extra = False\<rparr>],
         ''CLASS_D'' \<mapsto>
           [''EMERGENCY'' \<mapsto>
              \<lparr>re_messages = Some [''Please call emergency services now.''],
               re_refusal_code = Some ''REF_EMG_001'', re_handoff = Some False,
               re_hard_stop = Some True, re_extra = False\<rparr>]],
      doctor_handoff_cta = Some ''Book a consultation with a doctor.'',
      scan_forbidden_patterns = [], scan_action = None\<rparr>"

definition never_found :: "string \<Rightarrow> string \<Rightarrow> bool" where
  "never_found pattern text = False"

section \<open>AstraPipeline (pipeline.py)\<close>

subsection \<open>Collaborators\<close>

text \<open>
  The dictionary a rate limiter returns; \<open>rc_allowed = None\<close> is a dictionary without the
  key \<open>allowed\<close>, on which \<open>rate_check["allowed"]\<close> raises KeyError.
\<close>

record rate_check =
  rc_allowed :: "bool option"
  rc_retry_after :: "int option"

record rules_result =
  ru_allowed :: bool
  ru_violations :: "string list"
  ru_message :: string
  ru_boundary_statement :: string

record translation_service =
  ts_detect_language :: "string \<Rightarrow> exn + string"
  ts_translate :: "string \<Rightarrow> string \<Rightarrow> string \<Rightarrow> exn + string"

text \<open>
  The objects the pipeline holds. The component methods are functions that may raise; the
  three external services may be absent (\<open>None\<close>); \<open>p_db\<close> is the truth value of \<open>self.db\<close>;
  \<open>audit_uuid\<close> is the identifier \<open>uuid.uuid4()\<close> gives \<open>_save_audit_log\<close>. The consent
  manager is not among them: it is the one of this repository, with its cache as state.
\<close>

record 'u components =
  c_config :: config
  c_identify_capability :: "string \<Rightarrow> exn + intent_result"
  c_safety_enforce :: "string \<Rightarrow> string \<Rightarrow> string \<Rightarrow> exn + safety_result"
  c_rules_enforce :: "string \<Rightarrow> string \<Rightarrow> string \<Rightarrow> 'u option \<Rightarrow> exn + rules_result"
  c_rag_retrieve :: "string \<Rightarrow> string \<Rightarrow> string \<Rightarrow> int \<Rightarrow> exn + string option"
  c_emotion_detect :: "string \<Rightarrow> exn + string"
  c_map_tone :: "string \<Rightarrow> string \<Rightarrow> exn + string"
  c_apply_tone :: "string \<Rightarrow> string \<Rightarrow> exn + string"
  c_get_tone_guidelines :: "string \<Rightarrow> exn + string"
  c_sanitize :: "string \<Rightarrow> string list \<Rightarrow> exn + string"
  rate_limiter :: "(string \<Rightarrow> string \<Rightarrow> bool \<Rightarrow> exn + rate_check) option"
  translation :: "translation_service option"
  model_service :: "(string \<Rightarrow> exn + string) option"
  p_db :: bool
  audit_uuid :: string

subsection \<open>Audit log and responses\<close>

datatype audit_step =
    StepUserInput nat bool
  | StepRateLimit rate_check
  | StepLanguage string
  | StepNormalization nat
  | StepCapability string string rat bool
  | StepSafety bool "string list" bool string
  | StepRules bool "string list" bool
  | StepConsent bool string
  | StepRag "(bool \<times> nat) option"
  | StepEmotion string
  | StepTone string
  | StepRouting string
  | StepSanitization bool
  | StepWrapping string
  | StepLocalization string
  | StepAuditLogging "string option"
  | StepError exn

record audit_log =
  al_correlation_id :: string
  al_timestamp :: int
  al_user_id :: string
  al_profile_id :: string
  al_is_voice :: bool
  al_steps :: "audit_step list"
  al_intent_class :: "string option"
  al_capability :: "string option"
  al_blocked_reason :: "string option"
  al_refusal_code :: "string option"

record success_metadata =
  md_requires_ai :: bool
  md_consent_verified :: bool
  md_rag_context_used :: bool
  md_forbidden :: bool

text \<open>The keys a response has besides the four that every response has.\<close>

datatype response_extra =
    SuccessExtra string string string string success_metadata
  | RateLimitExtra
  | SafetyExtra bool string
  | RulesExtra
  | ConsentExtra string
  | ErrorExtra string exn

record pipeline_response =
  out_response :: string
  out_language :: string
  out_capability :: string
  out_audit_log_id :: "string option"
  out_extra :: response_extra

subsection \<open>The state of one run\<close>

text \<open>
  The audit log under construction, the consent manager, the local variable
  \<open>detected_language\<close> once it is assigned, and two records of what the run has called: the
  audit logs handed to \<open>_save_audit_log\<close> and the texts handed to \<open>identify_capability\<close>.
  \<open>rs_inserted\<close> holds the rows the run has inserted into the table \<open>astra_audit_logs\<close>.

  The exceptions of a run are values of \<open>exn\<close>: exceptions of class \<open>Exception\<close>, the ones an
  \<open>except Exception\<close> clause catches. An exception outside that class
  (\<open>asyncio.CancelledError\<close> thrown into the coroutine while it waits at an \<open>await\<close>,
  \<open>KeyboardInterrupt\<close>, \<open>SystemExit\<close>) passes every handler of this module; runs in which one
  is raised are not runs of this model.
\<close>

record run_state =
  rs_log :: audit_log
  rs_consent :: consent_manager
  rs_language :: "string option"
  rs_saves :: "audit_log list"
  rs_identify :: "string list"
  rs_inserted :: "audit_log list"

type_synonym 'a run = "run_state \<Rightarrow> (exn + 'a) \<times> run_state"

definition ret :: "'a \<Rightarrow> 'a run" where
  "ret x s = (Inr x, s)"

definition lift :: "exn + 'a \<Rightarrow> 'a run" where
  "lift r s = (r, s)"

text \<open>Sequencing: an exception of the first part skips the rest.\<close>

definition then_do :: "'a run \<Rightarrow> ('a \<Rightarrow> 'b run) \<Rightarrow> 'b run" where
  "then_do m f s = (case m s of (Inl e, s') \<Rightarrow> (Inl e, s') | (Inr x, s') \<Rightarrow> f x s')"

definition append_step :: "audit_step \<Rightarrow> unit run" where
  "append_step st s = (Inr (), s\<lparr>rs_log := (rs_log s)\<lparr>al_steps := al_steps (rs_log s) @ [st]\<rparr>\<rparr>)"

definition update_log :: "(audit_log \<Rightarrow> audit_log) \<Rightarrow> unit run" where
  "update_log f s = (Inr (), s\<lparr>rs_log := f (rs_log s)\<rparr>)"

text \<open>\<open>try: return call  except Exception: return fallback\<close>\<close>

definition guarded :: "'a \<Rightarrow> exn + 'a \<Rightarrow> 'a" where
  "guarded fallback r = (case r of Inl e \<Rightarrow> fallback | Inr x \<Rightarrow> x)"

subsection \<open>Helper methods\<close>

definition check_rate_limit :: "'u components \<Rightarrow> string \<Rightarrow> string \<Rightarrow> bool \<Rightarrow> rate_check" where
  "check_rate_limit comps user_id profile_id is_voice =
     (case rate_limiter comps of
        None \<Rightarrow> \<lparr>rc_allowed = Some True, rc_retry_after = None\<rparr>
      | Some check_limit \<Rightarrow>
          guarded \<lparr>rc_allowed = Some True, rc_retry_after = None\<rparr>
            (check_limit user_id profile_id is_voice))"

definition detect_language :: "'u components \<Rightarrow> string \<Rightarrow> string" where
  "detect_language comps text =
     (case translation comps of
        None \<Rightarrow> ''en''
      | Some ts \<Rightarrow> guarded ''en'' (ts_detect_language ts text))"

definition normalize_to_english :: "'u components \<Rightarrow> string \<Rightarrow> string \<Rightarrow> string" where
  "normalize_to_english comps text source_lang =
     (case translation comps of
        None \<Rightarrow> text
      | Some ts \<Rightarrow> guarded text (ts_translate ts text source_lang ''en''))"

definition localize_to_language :: "'u components \<Rightarrow> string \<Rightarrow> string \<Rightarrow> string" where
  "localize_to_language comps text target_lang =
     (case translation comps of
        None \<Rightarrow> text
      | Some ts \<Rightarrow> guarded text (ts_translate ts text ''en'' target_lang))"

definition handle_forbidden_capability :: "intent_result \<Rightarrow> string" where
  "handle_forbidden_capability capability_result =
     opt_default ''This action is not allowed'' (ir_reason capability_result)
       @ '' Please book an appointment with a licensed doctor for proper medical care.''"

definition route_to_automation :: "string \<Rightarrow> string" where
  "route_to_automation automation =
     opt_default ''Processing your request...''
       (map_of
          [(''existing_appointment_system'',
              ''Let me help you book an appointment. Please visit the appointments section or tell me your preferred date and time.''),
           (''existing_prescription_system'', ''Let me fetch your prescriptions. One moment please...''),
           (''existing_reminder_system'', ''Let me help you manage your medicine reminders.''),
           (''timeline_service'', ''Let me show you your health timeline.''),
           (''nudge_scheduler'', ''I'' @ [CHR 0x27] @ ''ll send you a gentle reminder.'')]
          automation)"

definition build_safe_system_prompt :: "'u components \<Rightarrow> string \<Rightarrow> cap_def \<Rightarrow> string \<Rightarrow> exn + string"
  where
  "build_safe_system_prompt comps capability_name d tone =
     (let rules = opt_default [] (cd_safety_rules d);
          p1 = ''You are Astra, an AI wellness companion for Ayureze. ''
                 @ opt_default [] (cd_description d) @ '' '';
          p2 = p1 @ (if ''no_diagnosis'' \<in> set rules
                     then ''You MUST NOT diagnose any medical condition. '' else []);
          p3 = p2 @ (if ''no_prescription'' \<in> set rules
                     then ''You MUST NOT prescribe any medicine or treatment. '' else []);
          p4 = p3 @ (if ''no_dosage_recommendation'' \<in> set rules
                     then ''You MUST NOT recommend any dosage. '' else []);
          p5 = p4 @ (if ''must_recommend_doctor'' \<in> set rules
                     then ''You MUST recommend consulting a doctor for medical advice. '' else []);
          p6 = p5 @ (case cd_allowed_topics d of
                       None \<Rightarrow> []
                     | Some topics \<Rightarrow> ''You may only discuss: '' @ join '', '' topics @ ''. '')
      in case c_get_tone_guidelines comps tone of
           Inl e \<Rightarrow> Inl e
         | Inr guidelines \<Rightarrow>
             Inr (p6 @ guidelines @ '' ''
                  @ ''Be empathetic, clear, and helpful within these boundaries.''))"

definition generate_ai_response ::
  "'u components \<Rightarrow> string \<Rightarrow> string \<Rightarrow> cap_def \<Rightarrow> string option \<Rightarrow> string \<Rightarrow> string" where
  "generate_ai_response comps normalized_input capability_name d rag_context tone =
     (case model_service comps of
        None \<Rightarrow> ''AI service is not available. Please try again later.''
      | Some generate \<Rightarrow>
          guarded (''I apologize, but I'' @ [CHR 0x27]
                    @ ''m having trouble generating a response. Please try again.'')
            (case build_safe_system_prompt comps capability_name d tone of
               Inl e \<Rightarrow> Inl e
             | Inr system_prompt \<Rightarrow>
                 (let context_prompt =
                        (case rag_context of
                           None \<Rightarrow> []
                         | Some ctx \<Rightarrow> if ctx = [] then [] else ''Context: '' @ ctx @ blank_line)
                  in generate (system_prompt @ blank_line @ context_prompt @ ''User: ''
                               @ normalized_input @ blank_line @ ''Assistant:''))))"

definition route_capability ::
  "'u components \<Rightarrow> intent_result \<Rightarrow> string \<Rightarrow> string \<Rightarrow> string \<Rightarrow> string option \<Rightarrow> string \<Rightarrow> string"
  where
  "route_capability comps capability_result normalized_input user_id profile_id rag_context tone =
     (let d = definition_of capability_result in
      if ir_forbidden capability_result then handle_forbidden_capability capability_result
      else if cd_response_template d \<noteq> None then the (cd_response_template d)
      else if cd_automation d \<noteq> None then route_to_automation (the (cd_automation d))
      else if opt_default False (cd_requires_ai d) then
        generate_ai_response comps normalized_input (ir_capability capability_result) d
          rag_context tone
      else ''I'' @ [CHR 0x27] @ ''m here to help! How can I assist you today?'')"

text \<open>
  \<open>_save_audit_log\<close>. The call is recorded with the audit log as it stands. Without a
  database the method returns at its guard (``audit log not saved''): nothing is inserted and
  there is no identifier. With one, a fresh identifier is returned; the insertion into
  \<open>astra_audit_logs\<close> is a comment in the source, so \<open>rs_inserted\<close> is left as it is on this
  branch too.
\<close>

definition save_audit_log :: "'u components \<Rightarrow> run_state \<Rightarrow> string option \<times> run_state" where
  "save_audit_log comps s =
     (let s' = s\<lparr>rs_saves := rs_saves s @ [rs_log s]\<rparr>
      in if \<not> p_db comps then (None, s') else (Some (audit_uuid comps), s'))"

subsection \<open>Terminal responses\<close>

definition build_rate_limit_response :: "'u components \<Rightarrow> rate_check \<Rightarrow> pipeline_response run" where
  "build_rate_limit_response comps rate_chk s =
     (let s1 = s\<lparr>rs_log := (rs_log s)\<lparr>al_blocked_reason := Some ''RATE_LIMIT_EXCEEDED''\<rparr>\<rparr>;
          (audit_log_id, s2) = save_audit_log comps s1
      in (Inr \<lparr>out_response = ''You'' @ [CHR 0x27] @ ''ve reached your usage limit. Please try again in ''
                              @ str_int (opt_default 60 (rc_retry_after rate_chk)) @ '' seconds.'',
               out_language = ''en'', out_capability = ''RATE_LIMITED'',
               out_audit_log_id = audit_log_id, out_extra = RateLimitExtra\<rparr>, s2))"

definition build_safety_blocked_response ::
  "'u components \<Rightarrow> safety_result \<Rightarrow> string \<Rightarrow> pipeline_response run" where
  "build_safety_blocked_response comps safety_check lang s =
     (let s1 = s\<lparr>rs_log := (rs_log s)\<lparr>al_blocked_reason := Some ''SAFETY_VIOLATION'',
                                       al_refusal_code := Some (sf_refusal_code safety_check)\<rparr>\<rparr>;
          message0 = sf_message safety_check;
          message1 = (if lang \<noteq> ''en'' then localize_to_language comps message0 lang else message0);
          message2 =
            (if sf_handoff safety_check then
               (let handoff_msg0 = opt_default ''Please consult a doctor.''
                                     (doctor_handoff_cta (c_config comps));
                    handoff_msg = (if lang \<noteq> ''en''
                                   then localize_to_language comps handoff_msg0 lang
                                   else handoff_msg0)
                in message1 @ blank_line @ handoff_msg)
             else message1);
          (audit_log_id, s2) = save_audit_log comps s1
      in (Inr \<lparr>out_response = message2, out_language = lang, out_capability = ''SAFETY_BLOCKED'',
               out_audit_log_id = audit_log_id,
               out_extra = SafetyExtra (sf_handoff safety_check) (sf_refusal_code safety_check)\<rparr>,
          s2))"

definition build_rules_blocked_response ::
  "'u components \<Rightarrow> rules_result \<Rightarrow> string \<Rightarrow> pipeline_response run" where
  "build_rules_blocked_response comps rules_check lang s =
     (let s1 = s\<lparr>rs_log := (rs_log s)\<lparr>al_blocked_reason := Some ''LEGAL_RULE_VIOLATION''\<rparr>\<rparr>;
          message0 = ru_message rules_check;
          message1 = (if lang \<noteq> ''en'' then localize_to_language comps message0 lang else message0);
          (audit_log_id, s2) = save_audit_log comps s1
      in (Inr \<lparr>out_response = message1, out_language = lang, out_capability = ''RULES_BLOCKED'',
               out_audit_log_id = audit_log_id, out_extra = RulesExtra\<rparr>, s2))"

definition build_consent_required_response ::
  "'u components \<Rightarrow> consent_result \<Rightarrow> string \<Rightarrow> pipeline_response run" where
  "build_consent_required_response comps consent_check lang s =
     (let s1 = s\<lparr>rs_log := (rs_log s)\<lparr>al_blocked_reason := Some ''CONSENT_REQUIRED''\<rparr>\<rparr>;
          message0 = message consent_check;
          message1 = (if lang \<noteq> ''en'' then localize_to_language comps message0 lang else message0);
          (audit_log_id, s2) = save_audit_log comps s1
      in (Inr \<lparr>out_response = message1, out_language = lang, out_capability = ''CONSENT_REQUIRED'',
               out_audit_log_id = audit_log_id,
               out_extra = ConsentExtra (purpose_of consent_check)\<rparr>, s2))"

subsection \<open>The steps inside the try block\<close>

text \<open>Steps 9 to 18, after every gate has been passed.\<close>

definition steps_after_gates ::
  "'u components \<Rightarrow> string \<Rightarrow> string \<Rightarrow> string \<Rightarrow> string \<Rightarrow> int \<Rightarrow> intent_result \<Rightarrow> rules_result \<Rightarrow>
   consent_result \<Rightarrow> pipeline_response run" where
  "steps_after_gates comps user_id profile_id lang normalized_input top_k capability_result
     rules_check consent_check =
     (let d = definition_of capability_result;
          cap = ir_capability capability_result;
          rag_wanted = (case cd_rag_context d of None \<Rightarrow> False | Some c \<Rightarrow> c \<noteq> [])
      in
      then_do
        (if rag_wanted then
           then_do (lift (c_rag_retrieve comps normalized_input (the (cd_rag_context d)) profile_id top_k))
             (\<lambda>rag_context.
                then_do
                  (append_step
                     (StepRag (Some (rag_context \<noteq> None \<and> rag_context \<noteq> Some [],
                                     length (opt_default [] rag_context)))))
                  (\<lambda>_. ret rag_context))
         else then_do (append_step (StepRag None)) (\<lambda>_. ret None))
      (\<lambda>rag_context.
      then_do (lift (c_emotion_detect comps normalized_input)) (\<lambda>emotion.
      then_do (append_step (StepEmotion emotion)) (\<lambda>_.
      then_do (lift (c_map_tone comps emotion cap)) (\<lambda>tone.
      then_do (append_step (StepTone tone)) (\<lambda>_.
      then_do (ret (route_capability comps capability_result normalized_input user_id profile_id
                      rag_context tone)) (\<lambda>response_text.
      then_do (append_step (StepRouting cap)) (\<lambda>_.
      then_do (lift (c_sanitize comps response_text (opt_default [] (cd_safety_rules d))))
        (\<lambda>sanitized0.
      then_do
        (ret (if ru_boundary_statement rules_check \<noteq> []
                 \<and> \<not> sublist (ru_boundary_statement rules_check) sanitized0
              then sanitized0 @ blank_line @ ru_boundary_statement rules_check
              else sanitized0)) (\<lambda>sanitized_response.
      then_do (append_step (StepSanitization (sanitized_response \<noteq> response_text))) (\<lambda>_.
      then_do (lift (c_apply_tone comps sanitized_response tone)) (\<lambda>emotional_response.
      then_do (append_step (StepWrapping tone)) (\<lambda>_.
      then_do
        (ret (if lang \<noteq> ''en'' then localize_to_language comps emotional_response lang
              else emotional_response)) (\<lambda>localized_response.
      then_do (append_step (StepLocalization lang)) (\<lambda>_.
      (\<lambda>s. let (audit_log_id, s1) = save_audit_log comps s;
                 (u, s2) = append_step (StepAuditLogging audit_log_id) s1
             in (Inr \<lparr>out_response = localized_response, out_language = lang,
                      out_capability = cap, out_audit_log_id = audit_log_id,
                      out_extra =
                        SuccessExtra (ir_intent_class capability_result) emotion tone
                          (al_correlation_id (rs_log s))
                          \<lparr>md_requires_ai = opt_default False (ir_requires_ai capability_result),
                           md_consent_verified = granted consent_check,
                           md_rag_context_used = (rag_context \<noteq> None \<and> rag_context \<noteq> Some []),
                           md_forbidden = ir_forbidden capability_result\<rparr>\<rparr>,
                 s2)))))))))))))))))"

text \<open>Steps 5 to 8: capability identification and the three gates that follow it.\<close>

definition verify_consent_step :: "string \<Rightarrow> string \<Rightarrow> string \<Rightarrow> int \<Rightarrow> consent_result run" where
  "verify_consent_step user_id profile_id capability_name now s =
     (let (res, cm) = cm_verify_consent (rs_consent s) user_id profile_id capability_name None now
      in (Inr res, s\<lparr>rs_consent := cm\<rparr>))"

definition identify_step :: "'u components \<Rightarrow> string \<Rightarrow> intent_result run" where
  "identify_step comps normalized_input s =
     (c_identify_capability comps normalized_input,
      s\<lparr>rs_identify := rs_identify s @ [normalized_input]\<rparr>)"

definition steps_from_capability ::
  "'u components \<Rightarrow> string \<Rightarrow> string \<Rightarrow> 'u option \<Rightarrow> string \<Rightarrow> string \<Rightarrow> int \<Rightarrow> int \<Rightarrow>
   pipeline_response run" where
  "steps_from_capability comps user_id profile_id user_metadata lang normalized_input top_k now =
     then_do (identify_step comps normalized_input) (\<lambda>capability_result.
     then_do
       (update_log (\<lambda>l. l\<lparr>al_intent_class := Some (ir_intent_class capability_result),
                           al_capability := Some (ir_capability capability_result)\<rparr>)) (\<lambda>_.
     then_do
       (append_step (StepCapability (ir_capability capability_result)
          (ir_intent_class capability_result) (ir_confidence capability_result)
          (ir_forbidden capability_result))) (\<lambda>_.
     then_do
       (lift (c_safety_enforce comps normalized_input (ir_capability capability_result)
                (ir_intent_class capability_result))) (\<lambda>safety_check.
     then_do
       (append_step (StepSafety (sf_safe safety_check) (sf_violations safety_check)
          (sf_handoff safety_check) (sf_refusal_code safety_check))) (\<lambda>_.
     if \<not> sf_safe safety_check then build_safety_blocked_response comps safety_check lang
     else
     then_do
       (lift (c_rules_enforce comps (ir_capability capability_result) normalized_input
                (ir_intent_class capability_result) user_metadata)) (\<lambda>rules_check.
     then_do
       (append_step (StepRules (ru_allowed rules_check) (ru_violations rules_check)
          (ru_boundary_statement rules_check \<noteq> []))) (\<lambda>_.
     if \<not> ru_allowed rules_check then build_rules_blocked_response comps rules_check lang
     else
     then_do
       (verify_consent_step user_id profile_id (ir_capability capability_result) now)
       (\<lambda>consent_check.
     then_do
       (append_step (StepConsent (granted consent_check) (purpose_of consent_check))) (\<lambda>_.
     if \<not> granted consent_check then build_consent_required_response comps consent_check lang
     else steps_after_gates comps user_id profile_id lang normalized_input top_k
            capability_result rules_check consent_check)))))))))"

text \<open>Steps 1 to 4, and the rate-limit gate.\<close>

definition process_body ::
  "'u components \<Rightarrow> string \<Rightarrow> string \<Rightarrow> string \<Rightarrow> string option \<Rightarrow> bool \<Rightarrow> 'u option \<Rightarrow> int \<Rightarrow>
   pipeline_response run" where
  "process_body comps user_input user_id profile_id input_language is_voice user_metadata now =
     then_do (append_step (StepUserInput (length user_input) is_voice)) (\<lambda>_.
     then_do (ret (check_rate_limit comps user_id profile_id is_voice)) (\<lambda>rate_chk.
     then_do (append_step (StepRateLimit rate_chk)) (\<lambda>_.
     then_do
       (lift (case rc_allowed rate_chk of None \<Rightarrow> Inl (KeyError ''allowed'') | Some a \<Rightarrow> Inr a))
       (\<lambda>allowed.
     if \<not> allowed then build_rate_limit_response comps rate_chk
     else
     then_do
       (\<lambda>s. let lang = (if falsy input_language then detect_language comps user_input
                         else the input_language)
             in (Inr lang, s\<lparr>rs_language := Some lang\<rparr>)) (\<lambda>lang.
     then_do (append_step (StepLanguage lang)) (\<lambda>_.
     then_do
       (ret (if lang \<noteq> ''en'' then normalize_to_english comps user_input lang else user_input))
       (\<lambda>normalized_input.
     then_do (append_step (StepNormalization (length normalized_input))) (\<lambda>_.
     steps_from_capability comps user_id profile_id user_metadata lang normalized_input 5 now))))))))"

subsection \<open>The whole of process\<close>

definition apology :: string where
  "apology = ''I apologize, but I encountered an issue. Please try again or contact support.''"

definition new_audit_log :: "string \<Rightarrow> int \<Rightarrow> string \<Rightarrow> string \<Rightarrow> bool \<Rightarrow> audit_log" where
  "new_audit_log correlation_id now user_id profile_id is_voice =
     \<lparr>al_correlation_id = correlation_id, al_timestamp = now, al_user_id = user_id,
      al_profile_id = profile_id, al_is_voice = is_voice, al_steps = [],
      al_intent_class = None, al_capability = None, al_blocked_reason = None,
      al_refusal_code = None\<rparr>"

text \<open>
  \<open>process\<close>: the audit log is created, the body runs, and the \<open>except Exception\<close> handler
  turns an exception of the body into the apology, after adding the error step and saving
  the audit log. The consent manager is the pipeline's state from one request to the next.
\<close>

definition initial_run_state ::
  "consent_manager \<Rightarrow> string \<Rightarrow> int \<Rightarrow> string \<Rightarrow> string \<Rightarrow> bool \<Rightarrow> run_state" where
  "initial_run_state cm correlation_id now user_id profile_id is_voice =
     \<lparr>rs_log = new_audit_log correlation_id now user_id profile_id is_voice,
      rs_consent = cm, rs_language = None, rs_saves = [], rs_identify = [],
      rs_inserted = []\<rparr>"

definition process ::
  "'u components \<Rightarrow> consent_manager \<Rightarrow> string \<Rightarrow> int \<Rightarrow> string \<Rightarrow> string \<Rightarrow> string \<Rightarrow>
   string option \<Rightarrow> bool \<Rightarrow> 'u option \<Rightarrow> pipeline_response \<times> run_state" where
  "process comps cm correlation_id now user_input user_id profile_id input_language is_voice
     user_metadata =
     (case process_body comps user_input user_id profile_id input_language is_voice
             user_metadata now
             (initial_run_state cm correlation_id now user_id profile_id is_voice) of
        (Inr result, s) \<Rightarrow> (result, s)
      | (Inl e, s) \<Rightarrow>
          (let (u, s1) = append_step (StepError e) s;
               (audit_log_id, s2) = save_audit_log comps s1
           in (\<lparr>out_response = apology,
                out_language = opt_default ''en'' (rs_language s),
                out_capability = ''ERROR'', out_audit_log_id = None,
                out_extra = ErrorExtra correlation_id e\<rparr>, s2)))"

subsection \<open>What a part of a run does to the record of saved audit logs\<close>





fun is_success :: "response_extra \<Rightarrow> bool" where
  "is_success (SuccessExtra ic emotion tone cid md) = True"
| "is_success other = False"

fun is_consent_step :: "audit_step \<Rightarrow> bool" where
  "is_consent_step (StepConsent g p) = True"
| "is_consent_step other = False"

subsection \<open>Sequences of calls to a consent manager\<close>

datatype cm_call =
    CallVerify string string string "string option" int
  | CallGrant string string string int int
  | CallRevoke string string string int

fun cm_step :: "consent_manager \<Rightarrow> cm_call \<Rightarrow> consent_manager" where
  "cm_step cm (CallVerify user_id profile_id capability_name purpose now) =
     snd (cm_verify_consent cm user_id profile_id capability_name purpose now)"
| "cm_step cm (CallGrant user_id profile_id purpose duration_days now) =
     snd (grant_consent cm user_id profile_id purpose duration_days now)"
| "cm_step cm (CallRevoke user_id profile_id purpose now) =
     snd (revoke_consent cm user_id profile_id purpose now)"

subsection \<open>A small pipeline, for the examples\<close>

text \<open>
  The capability agent and the safety enforcer of this repository on the small configuration,
  a rate limiter that refuses every request, no translation and no model service, and simple
  stand-ins for the other components.
\<close>

definition demo_components :: "unit components" where
  "demo_components =
     \<lparr>c_config = demo_config,
      c_identify_capability = identify_capability demo_config,
      c_safety_enforce = enforce demo_config never_found 0,
      c_rules_enforce = (\<lambda>cap text ic md.
         Inr \<lparr>ru_allowed = True, ru_violations = [], ru_message = [], ru_boundary_statement = []\<rparr>),
      c_rag_retrieve = (\<lambda>q ctx pid k. Inr None),
      c_emotion_detect = (\<lambda>text. Inr ''neutral''),
      c_map_tone = (\<lambda>emotion cap. Inr ''neutral''),
      c_apply_tone = (\<lambda>text tone. Inr text),
      c_get_tone_guidelines = (\<lambda>tone. Inr ''Be professional and clear.''),
      c_sanitize = (\<lambda>text rules. Inr text),
      rate_limiter = Some (\<lambda>user_id profile_id is_voice.
         Inr \<lparr>rc_allowed = Some False, rc_retry_after = Some 30\<rparr>),
      translation = None, model_service = None, p_db = False, audit_uuid = ''a1''\<rparr>"

text \<open>The same pipeline without a rate limiter.\<close>

definition demo_open_components :: "unit components" where
  "demo_open_components = demo_components\<lparr>rate_limiter := None\<rparr>"

section \<open>ResponseSanitizer (response\_sanitizer.py)\<close>

subsection \<open>The regular expressions of the sanitizer\<close>

text \<open>
  The patterns of this module are built from literals compared without case, the word
  boundary \<open>\b\<close>, alternation, sequence, and greedy repetition of a character class
  (\<open>\s+\<close>, \<open>\w+\<close>, \<open>\d+\<close>, \<open>\s*\<close>). A position in the text is the character before it and
  the text from it on. \<open>rx_match\<close> lists the positions a match can end at, in the order a
  backtracking matcher tries them: the first alternative first, the longest repetition
  first. The head of the list is the match \<open>re\<close> reports.
\<close>

datatype rx =
    Lit string
  | WordB
  | Alt rx rx
  | Seq rx rx
  | Plus "char \<Rightarrow> bool"
  | Star "char \<Rightarrow> bool"

type_synonym rx_pos = "char option \<times> string"

fun take_class :: "(char \<Rightarrow> bool) \<Rightarrow> rx_pos \<Rightarrow> rx_pos list" where
  "take_class cls (prev, []) = [(prev, [])]"
| "take_class cls (prev, c # cs) =
     (prev, c # cs) # (if cls c then take_class cls (Some c, cs) else [])"

fun rx_match :: "rx \<Rightarrow> rx_pos \<Rightarrow> rx_pos list" where
  "rx_match (Lit l) (prev, s) =
     (if ci_prefix l s
      then [(if l = [] then prev else nth_opt s (length l - 1), drop (length l) s)]
      else [])"
| "rx_match WordB (prev, s) = (if word_boundary prev (nth_opt s 0) then [(prev, s)] else [])"
| "rx_match (Alt a b) pos = rx_match a pos @ rx_match b pos"
| "rx_match (Seq a b) pos = concat (map (rx_match b) (rx_match a pos))"
| "rx_match (Plus cls) pos = rev (tl (take_class cls pos))"
| "rx_match (Star cls) pos = rev (take_class cls pos)"

text \<open>\<open>pattern.search(text)\<close>\<close>

fun rx_search_from :: "rx \<Rightarrow> char option \<Rightarrow> string \<Rightarrow> bool" where
  "rx_search_from r prev [] = (rx_match r (prev, []) \<noteq> [])"
| "rx_search_from r prev (c # cs) =
     (if rx_match r (prev, c # cs) \<noteq> [] then True else rx_search_from r (Some c) cs)"

definition rx_search :: "rx \<Rightarrow> string \<Rightarrow> bool" where
  "rx_search r text = rx_search_from r None text"

text \<open>
  \<open>pattern.sub(repl, text)\<close>: the matches are found from left to right without overlap; the
  counter is the number of characters of the current match still to be skipped.
\<close>

fun rx_sub_from :: "rx \<Rightarrow> string \<Rightarrow> char option \<Rightarrow> nat \<Rightarrow> string \<Rightarrow> string" where
  "rx_sub_from r repl prev n [] =
     (if n = 0 \<and> rx_match r (prev, []) \<noteq> [] then repl else [])"
| "rx_sub_from r repl prev (Suc n) (c # cs) = rx_sub_from r repl (Some c) n cs"
| "rx_sub_from r repl prev 0 (c # cs) =
     (case rx_match r (prev, c # cs) of
        [] \<Rightarrow> c # rx_sub_from r repl (Some c) 0 cs
      | (prev', rest) # others \<Rightarrow>
          (let k = length (c # cs) - length rest
           in if k = 0 then repl @ c # rx_sub_from r repl (Some c) 0 cs
              else repl @ rx_sub_from r repl (Some c) (k - 1) cs))"

definition rx_sub :: "rx \<Rightarrow> string \<Rightarrow> string \<Rightarrow> string" where
  "rx_sub r repl text = rx_sub_from r repl None 0 text"

fun alts :: "string list \<Rightarrow> rx" where
  "alts [] = Lit []"
| "alts [l] = Lit l"
| "alts (l # ls) = Alt (Lit l) (alts ls)"

definition is_digit :: "char \<Rightarrow> bool" where
  "is_digit c = (let n = (of_char c :: nat) in 48 \<le> n \<and> n \<le> 57)"

definition phrase_then_word :: "string list \<Rightarrow> rx" where
  "phrase_then_word phrases = Seq WordB (Seq (alts phrases) (Seq (Plus is_space) (Plus is_word_char)))"

definition words_rx :: "string list \<Rightarrow> rx" where
  "words_rx phrases = Seq WordB (Seq (alts phrases) WordB)"

subsection \<open>Patterns and disclaimers\<close>

record pattern_def =
  pd_category :: string
  pd_pattern :: rx
  pd_replacement :: string
  pd_severity :: string

definition diagnosis_pattern_1 :: pattern_def where
  "diagnosis_pattern_1 =
     \<lparr>pd_category = ''diagnosis'',
      pd_pattern = phrase_then_word
        [''you have'', ''you are suffering from'', ''diagnosed with'', ''this is''],
      pd_replacement = ''Please consult a doctor for proper diagnosis.'', pd_severity = ''high''\<rparr>"

definition diagnosis_pattern_2 :: pattern_def where
  "diagnosis_pattern_2 =
     \<lparr>pd_category = ''diagnosis'',
      pd_pattern = phrase_then_word [''it seems like you have'', ''appears to be'', ''looks like''],
      pd_replacement = ''Only a doctor can make a diagnosis.'', pd_severity = ''high''\<rparr>"

definition prescription_pattern_1 :: pattern_def where
  "prescription_pattern_1 =
     \<lparr>pd_category = ''prescription'',
      pd_pattern =
        Seq WordB (Seq (alts [''take'', ''use'', ''try'']) (Seq (Plus is_space)
          (Seq (Plus is_digit) (Seq (Star is_space)
             (alts [''mg'', ''ml'', ''tablets'', ''capsules'']))))),
      pd_replacement = ''Please consult your doctor for dosage information.'',
      pd_severity = ''high''\<rparr>"

definition prescription_pattern_2 :: pattern_def where
  "prescription_pattern_2 =
     \<lparr>pd_category = ''prescription'',
      pd_pattern = phrase_then_word [''prescribe'', ''recommend taking'', ''should take''],
      pd_replacement = ''Please consult your doctor for prescription.'', pd_severity = ''high''\<rparr>"

definition treatment_pattern :: pattern_def where
  "treatment_pattern =
     \<lparr>pd_category = ''treatment'',
      pd_pattern = phrase_then_word [''this will cure'', ''this treats'', ''this heals''],
      pd_replacement = ''Please discuss treatment options with your doctor.'',
      pd_severity = ''medium''\<rparr>"

definition prognosis_pattern :: pattern_def where
  "prognosis_pattern =
     \<lparr>pd_category = ''prognosis'',
      pd_pattern =
        Seq WordB (Seq (alts [''you will'', ''you should'', ''it will'']) (Seq (Plus is_space)
          (alts [''get better'', ''heal'', ''recover'', ''improve'']))),
      pd_replacement = ''Please consult your doctor about your prognosis.'',
      pd_severity = ''medium''\<rparr>"

text \<open>\<open>_compile_unsafe_patterns\<close>, in the order the loop of \<open>sanitize\<close> visits them.\<close>

definition unsafe_patterns :: "pattern_def list" where
  "unsafe_patterns =
     [diagnosis_pattern_1, diagnosis_pattern_2, prescription_pattern_1, prescription_pattern_2,
      treatment_pattern, prognosis_pattern]"

text \<open>The warning sign and the siren of the disclaimers, as their UTF-8 bytes.\<close>

definition warning_sign :: string where
  "warning_sign = [CHR 0xE2, CHR 0x9A, CHR 0xA0, CHR 0xEF, CHR 0xB8, CHR 0x8F]"

definition siren_sign :: string where
  "siren_sign = [CHR 0xF0, CHR 0x9F, CHR 0x9A, CHR 0xA8]"

definition disclaimer_medical_advice :: string where
  "disclaimer_medical_advice =
     blank_line @ warning_sign
       @ '' This is not medical advice. Please consult a licensed healthcare professional.''"

definition disclaimer_diagnosis :: string where
  "disclaimer_diagnosis =
     blank_line @ warning_sign
       @ '' This is not a diagnosis. Only a licensed doctor can diagnose medical conditions.''"

definition disclaimer_emergency :: string where
  "disclaimer_emergency =
     blank_line @ siren_sign @ '' If this is an emergency, please call 108/112 immediately.''"

definition contains_diagnostic_language :: "string \<Rightarrow> bool" where
  "contains_diagnostic_language text =
     list_ex (\<lambda>r. rx_search r text)
       [words_rx [''symptoms of'', ''signs of'', ''indicates'', ''suggests''],
        words_rx [''condition'', ''disease'', ''disorder'', ''syndrome''],
        words_rx [''may have'', ''might have'', ''could be'']]"

definition contains_emergency_keywords :: "string \<Rightarrow> bool" where
  "contains_emergency_keywords text =
     list_ex (\<lambda>r. rx_search r text)
       [words_rx [''emergency'', ''urgent'', ''critical'', ''severe''],
        words_rx [''chest pain'', ''heart attack'', ''stroke''],
        words_rx [''bleeding'', ''unconscious'', ''seizure'']]"

definition discard_message :: string where
  "discard_message =
     ''I apologize, but I cannot provide that information as it contains medical advice or treatment recommendations. Please consult a qualified Ayurvedic doctor.''"

text \<open>
  One round of the loop over the legacy patterns: a pattern found in the text is replaced
  everywhere.
\<close>

definition apply_pattern :: "pattern_def \<Rightarrow> string \<Rightarrow> string" where
  "apply_pattern pd sanitized =
     (if rx_search (pd_pattern pd) sanitized
      then rx_sub (pd_pattern pd) (pd_replacement pd) sanitized
      else sanitized)"

definition apply_unsafe_patterns :: "string \<Rightarrow> string" where
  "apply_unsafe_patterns text = foldl (\<lambda>sanitized pd. apply_pattern pd sanitized) text unsafe_patterns"

subsection \<open>sanitize\<close>

definition append_once :: "string \<Rightarrow> string \<Rightarrow> string" where
  "append_once disclaimer sanitized =
     (if \<not> sublist disclaimer sanitized then sanitized @ disclaimer else sanitized)"

text \<open>
  \<open>sanitize\<close>. \<open>agent\<close> is the configuration of the capability agent the sanitizer was
  given, if any; \<open>re_search_ignorecase p t\<close> stands for \<open>re.search(p, t, re.IGNORECASE)\<close> on
  the configured patterns of the scan of generated text. \<open>rules0\<close> is the argument
  \<open>safety_rules\<close>.
\<close>

definition sanitize ::
  "config option \<Rightarrow> (string \<Rightarrow> string \<Rightarrow> bool) \<Rightarrow> string \<Rightarrow> string list option \<Rightarrow> string" where
  "sanitize agent re_search_ignorecase response rules0 =
     (if (case agent of
            None \<Rightarrow> False
          | Some cfg \<Rightarrow>
              list_ex (\<lambda>pattern_str. re_search_ignorecase pattern_str response)
                (scan_forbidden_patterns cfg)
              \<and> opt_default ''DISCARD_AND_REFUSE'' (scan_action cfg) = ''DISCARD_AND_REFUSE'')
      then discard_message
      else
        let sanitized1 = apply_unsafe_patterns response;
            rules = opt_default [] rules0;
            sanitized2 = (if ''must_recommend_doctor'' \<in> set rules
                          then append_once disclaimer_medical_advice sanitized1 else sanitized1);
            sanitized3 = (if ''no_diagnosis'' \<in> set rules \<and> contains_diagnostic_language sanitized2
                          then append_once disclaimer_diagnosis sanitized2 else sanitized2)
        in if contains_emergency_keywords response
           then append_once disclaimer_emergency sanitized3 else sanitized3)"

text \<open>The answer \<open>Hello\<close>, sanitized once, and sanitized a second time.\<close>

definition once_sanitized :: string where
  "once_sanitized = ''Hello'' @ disclaimer_medical_advice"

definition once_more_replaced :: string where
  "once_more_replaced =
     ''Hello'' @ blank_line @ warning_sign
       @ '' Please consult a doctor for proper diagnosis. medical advice. Please consult a licensed healthcare professional.''"

definition twice_sanitized :: string where
  "twice_sanitized = once_more_replaced @ disclaimer_medical_advice"

section \<open>Properties of RAGMemory\<close>

lemma forbidden_not_allowed: "m \<in> set FORBIDDEN \<Longrightarrow> m \<notin> set ALLOWED"
  by (auto simp: FORBIDDEN_def ALLOWED_def)

lemma is_allowed_iff: "is_allowed_memory_type m \<longleftrightarrow> m \<in> set ALLOWED"
  using forbidden_not_allowed by (auto simp: is_allowed_memory_type_def)

text \<open>
  Claim C6. A memory type outside the allow-list (so in particular every deny-list value) is
  rejected on both paths: \<open>store_memory\<close> answers \<open>success = False\<close> with no memory id and
  leaves the indexes and the metadata as they were, and \<open>retrieve\<close> answers \<open>None\<close> whatever
  the index search would have returned.
\<close>

theorem disallowed_memory_type_rejected:
  assumes "mtype \<notin> set ALLOWED"
  shows "mr_success (fst (store_memory env st profile_id mtype cont md ttl_days now)) = False
       \<and> mr_memory_id (fst (store_memory env st profile_id mtype cont md ttl_days now)) = None
       \<and> snd (store_memory env st profile_id mtype cont md ttl_days now) = st
       \<and> retrieve env st query mtype profile_id top_k threshold now = None"
  using assms by (simp add: store_memory_def retrieve_def is_allowed_iff)

theorem disallowed_memory_type_rejected_witness:
  "''diagnosis_progress'' \<notin> set ALLOWED
   \<and> mr_success (fst (store_memory demo_env demo_rag ''p1'' ''diagnosis_progress''
         ''improving'' None 90 10)) = False
   \<and> mr_memory_id (fst (store_memory demo_env demo_rag ''p1'' ''diagnosis_progress''
         ''improving'' None 90 10)) = None
   \<and> snd (store_memory demo_env demo_rag ''p1'' ''diagnosis_progress''
         ''improving'' None 90 10) = demo_rag
   \<and> retrieve demo_env demo_rag ''tea'' ''diagnosis_progress'' ''p1'' 5 (7/10) 10 = None"
proof -
  have h: "''diagnosis_progress'' \<notin> set ALLOWED"
    by (simp add: ALLOWED_def)
  show ?thesis
    using h disallowed_memory_type_rejected [OF h, of demo_env demo_rag "''p1''" "''improving''"
        None 90 10 "''tea''" 5 "7/10"]
    by simp
qed






section \<open>Properties of ConsentManager\<close>

lemma demo_astra:
  "verify_astra_consent demo_lookup Map.empty ''u1'' ''p1'' 10 =
     (demo_astra_result, [cache_key ''u1'' ''p1'' ASTRA_USAGE \<mapsto> demo_astra_result])"
  by (simp add: verify_astra_consent_def cached_valid_def demo_lookup_def demo_astra_result_def
      ASTRA_USAGE_def Let_def)

text \<open>
  Claim C5, as stated, fails in two places. A capability without an entry in the purpose map
  is not granted on Astra usage alone when the caller passes a purpose of its own: the
  passed purpose is checked instead. And the record is not consulted at all while the cache
  holds an entry for the purpose that has not expired: here the store's record is revoked and
  the answer is still the cached grant.
\<close>

theorem verify_consent_counterexample:
  "map_capability_to_purpose ''GENERAL_WELLNESS_CHAT'' = None
   \<and> granted (fst (verify_astra_consent demo_lookup Map.empty ''u1'' ''p1'' 10))
   \<and> \<not> granted (fst (verify_consent demo_lookup Map.empty ''u1'' ''p1''
                        ''GENERAL_WELLNESS_CHAT'' (Some ''document_upload'') 10))
   \<and> demo_lookup ''u1'' ''p1'' ''health_timeline_access'' \<noteq> None
   \<and> cr_revoked_at (the (demo_lookup ''u1'' ''p1'' ''health_timeline_access'')) \<noteq> None
   \<and> status (fst (verify_consent demo_lookup
         [cache_key ''u1'' ''p1'' ''health_timeline_access'' \<mapsto> demo_stale_result]
         ''u1'' ''p1'' ''HEALTH_TIMELINE'' None 10)) = GRANTED"
  by (simp add: verify_consent_def demo_astra map_capability_to_purpose_def demo_lookup_def
      demo_stale_result_def demo_astra_result_def cached_valid_def cache_key_def ASTRA_USAGE_def
      verify_astra_consent_def Let_def)

text \<open>
  Claim C5, amended. Let \<open>a\<close> be the answer of the mandatory Astra usage check and \<open>cache\<close>
  the cache after it.
  \<^item> If \<open>a\<close> is not granted, it is the answer, whatever the capability.
  \<^item> Otherwise the purpose is the one the caller passed or, when none was passed, the
    capability's entry in the purpose map. With no purpose the answer is granted on the Astra
    usage consent alone.
  \<^item> With a purpose, an unexpired cache entry for it is the answer. Failing that the store's
    record decides, in this order: no record gives \<open>NOT_REQUESTED\<close>, a revocation gives
    \<open>REVOKED\<close> (also when the record is expired as well), an expiry gives \<open>EXPIRED\<close>, and
    anything else gives \<open>GRANTED\<close>, which is put in the cache.
\<close>

theorem verify_consent_order:
  assumes a: "verify_astra_consent lookup cache0 user_id profile_id now = (a, cache)"
    and p: "purpose = (if falsy purpose0 then map_capability_to_purpose capability else purpose0)"
    and r: "verify_consent lookup cache0 user_id profile_id capability purpose0 now = (res, cache')"
    and k: "key = cache_key user_id profile_id (the purpose)"
  shows "(\<not> granted a \<longrightarrow> res = a \<and> cache' = cache)
       \<and> (granted a \<and> falsy purpose \<longrightarrow>
            granted res \<and> status res = GRANTED \<and> purpose_of res = ASTRA_USAGE \<and> cache' = cache)
       \<and> (granted a \<and> \<not> falsy purpose \<longrightarrow>
            (\<forall>c. cached_valid cache key now = Some c \<longrightarrow> res = c \<and> cache' = cache)
          \<and> (cached_valid cache key now = None \<longrightarrow>
               (lookup user_id profile_id (the purpose) = None \<longrightarrow>
                  \<not> granted res \<and> status res = NOT_REQUESTED \<and> cache' = cache)
             \<and> (\<forall>rec. lookup user_id profile_id (the purpose) = Some rec \<longrightarrow>
                  (cr_revoked_at rec \<noteq> None \<longrightarrow>
                     \<not> granted res \<and> status res = REVOKED \<and> cache' = cache)
                \<and> (cr_revoked_at rec = None \<and> is_expired (cr_expires_at rec) now \<longrightarrow>
                     \<not> granted res \<and> status res = EXPIRED \<and> cache' = cache)
                \<and> (cr_revoked_at rec = None \<and> \<not> is_expired (cr_expires_at rec) now \<longrightarrow>
                     granted res \<and> status res = GRANTED \<and> cache' = cache(key \<mapsto> res)))))"
  using a r unfolding p k
  by (auto simp: verify_consent_def Let_def ASTRA_USAGE_def split: option.splits if_splits)

theorem verify_consent_order_witness:
  "verify_astra_consent demo_lookup Map.empty ''u1'' ''p1'' 10 =
     (demo_astra_result, [cache_key ''u1'' ''p1'' ASTRA_USAGE \<mapsto> demo_astra_result])
   \<and> \<not> granted (fst (verify_consent demo_lookup Map.empty ''u1'' ''p1'' ''HEALTH_TIMELINE'' None 10))
   \<and> status (fst (verify_consent demo_lookup Map.empty ''u1'' ''p1'' ''HEALTH_TIMELINE'' None 10))
       = REVOKED
   \<and> is_expired (cr_expires_at (the (demo_lookup ''u1'' ''p1'' ''health_timeline_access''))) 10"
proof -
  obtain res cache' where r:
    "verify_consent demo_lookup Map.empty ''u1'' ''p1'' ''HEALTH_TIMELINE'' None 10 = (res, cache')"
    by (cases "verify_consent demo_lookup Map.empty ''u1'' ''p1'' ''HEALTH_TIMELINE'' None 10")
  have g: "granted demo_astra_result" by (simp add: demo_astra_result_def)
  have pu: "(if falsy None then map_capability_to_purpose ''HEALTH_TIMELINE'' else None)
              = Some ''health_timeline_access''"
    by (simp add: map_capability_to_purpose_def)
  have cv: "cached_valid [cache_key ''u1'' ''p1'' ASTRA_USAGE \<mapsto> demo_astra_result]
              (cache_key ''u1'' ''p1'' ''health_timeline_access'') 10 = None"
    by (simp add: cached_valid_def cache_key_def ASTRA_USAGE_def)
  have lk: "demo_lookup ''u1'' ''p1'' ''health_timeline_access'' =
              Some \<lparr>cr_id = Some ''c2'', cr_granted_at = Some (Naive 0),
                    cr_expires_at = Some (Naive 5), cr_revoked_at = Some (Naive 3)\<rparr>"
    by (simp add: demo_lookup_def)
  from verify_consent_order [OF demo_astra refl r refl] g pu cv lk
  have "\<not> granted res \<and> status res = REVOKED" by simp
  with r demo_astra lk show ?thesis by simp
qed

text \<open>
  Claim C9 does not hold of the code, because the store operations are placeholders:
  \<open>grant_consent\<close> reports failure and stores nothing, \<open>revoke_consent\<close> reports failure, and
  the verification that follows finds no record. Its status is \<open>NOT_REQUESTED\<close>, not
  \<open>REVOKED\<close>, after grant and revoke, and \<open>NOT_REQUESTED\<close>, not \<open>EXPIRED\<close>, after a grant for
  zero days and a later check. This holds with or without a database connection.
\<close>

theorem grant_revoke_verify_not_requested:
  "(let cm0 = new_consent_manager db;
        (g, cm1) = grant_consent cm0 user_id profile_id purpose duration_days now;
        (r, cm2) = revoke_consent cm1 user_id profile_id purpose now;
        (v, cm3) = cm_verify_consent cm2 user_id profile_id capability (Some purpose) later
    in gr_success g = False \<and> fst r = False \<and> granted v = False \<and> status v = NOT_REQUESTED)
   \<and> (let cm0 = new_consent_manager db;
            (g, cm1) = grant_consent cm0 user_id profile_id purpose 0 now;
            (v, cm2) = cm_verify_consent cm1 user_id profile_id capability (Some purpose) (now + 1)
        in gr_success g = False \<and> granted v = False \<and> status v = NOT_REQUESTED)"
  by (simp add: new_consent_manager_def grant_consent_def revoke_consent_def cm_verify_consent_def
      save_consent_to_db_def revoke_consent_in_db_def get_consent_from_db_def verify_consent_def
      verify_astra_consent_def cached_valid_def astra_not_requested_def Let_def)

section \<open>Properties of CapabilityAgent\<close>

lemma lower_id:
  "list_all (\<lambda>c. (of_char c :: nat) < 65 \<or> 90 < (of_char c :: nat)) k \<Longrightarrow> map lower_char k = k"
  by (induction k) (auto simp: lower_char_def Let_def)

lemma kw_all_lower:
  "list_all (list_all (\<lambda>c. (of_char c :: nat) < 65 \<or> 90 < (of_char c :: nat))) emergency_keywords"
  unfolding emergency_keywords_def by simp

lemma kw_all_shape:
  "list_all (\<lambda>k. k \<noteq> [] \<and> \<not> is_space (hd k) \<and> \<not> is_space (last k)) emergency_keywords"
  unfolding emergency_keywords_def by (simp add: is_space_def)

lemma kw_props:
  assumes "k \<in> set emergency_keywords"
  shows "map lower_char k = k \<and> k \<noteq> [] \<and> \<not> is_space (hd k) \<and> \<not> is_space (last k)"
  using assms kw_all_lower kw_all_shape lower_id [of k] by (simp add: list_all_iff)

lemma dropWhile_keeps:
  "k \<noteq> [] \<Longrightarrow> \<not> P (hd k) \<Longrightarrow> \<exists>ps'. dropWhile P (ps @ k @ ss) = ps' @ k @ ss"
proof (induction ps)
  case Nil
  then have "dropWhile P (k @ ss) = k @ ss" by (cases k) auto
  then show ?case by auto
next
  case (Cons p ps)
  then show ?case by (cases "P p") (auto intro: exI[of _ "p # ps"])
qed

lemma strip_keeps:
  assumes "sublist k t" "k \<noteq> []" "\<not> is_space (hd k)" "\<not> is_space (last k)"
  shows "sublist k (strip t)"
proof -
  from assms(1) obtain ps ss where t: "t = ps @ k @ ss" by (auto simp: sublist_def)
  from dropWhile_keeps [of k is_space ps ss] assms(2,3) obtain ps' where
    1: "dropWhile is_space (ps @ k @ ss) = ps' @ k @ ss" by blast
  have "rev k \<noteq> []" "\<not> is_space (hd (rev k))" using assms by (auto simp: hd_rev)
  from dropWhile_keeps [of "rev k" is_space "rev ss" "rev ps'"] this obtain ss' where
    2: "dropWhile is_space (rev ss @ rev k @ rev ps') = ss' @ rev k @ rev ps'" by blast
  have "strip t = ps' @ k @ rev ss'" by (simp add: strip_def t 1 2)
  then show ?thesis by (auto simp: sublist_def)
qed

lemma lower_keeps:
  assumes "sublist k t" "map lower_char k = k"
  shows "sublist k (lower t)"
proof -
  from assms(1) obtain ps ss where t: "t = ps @ k @ ss" by (auto simp: sublist_def)
  have "lower t = map lower_char ps @ k @ map lower_char ss" by (simp add: lower_def t assms(2))
  then show ?thesis unfolding sublist_def by blast
qed

lemma emergency_detected:
  assumes "k \<in> set emergency_keywords" "sublist k user_input"
  shows "is_emergency (strip (lower user_input))"
proof -
  from kw_props [OF assms(1)] lower_keeps [OF assms(2)] strip_keeps
  have "sublist k (strip (lower user_input))" by blast
  with assms(1) show ?thesis by (auto simp: is_emergency_def list_ex_iff)
qed

text \<open>
  Claim C2. Whenever the input text contains one of the emergency keywords, and the
  configuration declares \<open>EMERGENCY_REDIRECT\<close> with intent class \<open>CLASS_D\<close>,
  \<open>identify_capability\<close> returns \<open>EMERGENCY_REDIRECT\<close>, \<open>CLASS_D\<close>, confidence 1, whatever
  forbidden capabilities and triggers the configuration has and the text matches: the
  emergency test runs first, and lower-casing and stripping the text keep the keyword.
\<close>

theorem emergency_first:
  assumes "k \<in> set emergency_keywords" and "sublist k user_input"
    and "map_of (capabilities cfg) ''EMERGENCY_REDIRECT'' = Some d"
    and "cd_intent_class d = Some ''CLASS_D''"
  shows "\<exists>r. identify_capability cfg user_input = Inr r
           \<and> ir_capability r = ''EMERGENCY_REDIRECT''
           \<and> ir_intent_class r = ''CLASS_D''
           \<and> ir_confidence r = 1"
  using emergency_detected [OF assms(1,2)] assms(3,4)
  by (simp add: identify_capability_def build_result_def cap_lookup_def opt_default_def)

theorem emergency_first_witness:
  "''chest pain'' \<in> set emergency_keywords
   \<and> sublist ''chest pain'' ''Please prescribe something for my chest pain''
   \<and> trigger_search ''prescribe'' (strip (lower ''Please prescribe something for my chest pain''))
   \<and> map_of (capabilities demo_config) ''EMERGENCY_REDIRECT''
        = Some (empty_cap\<lparr>cd_intent_class := Some ''CLASS_D'', cd_priority := Some 1\<rparr>)
   \<and> (\<exists>r. identify_capability demo_config ''Please prescribe something for my chest pain'' = Inr r
           \<and> ir_capability r = ''EMERGENCY_REDIRECT''
           \<and> ir_intent_class r = ''CLASS_D''
           \<and> ir_confidence r = 1)"
proof -
  have k: "''chest pain'' \<in> set emergency_keywords" by (simp add: emergency_keywords_def)
  have s: "sublist ''chest pain'' ''Please prescribe something for my chest pain''"
    by (simp add: sublist_Cons_right)
  have t: "trigger_search ''prescribe'' (strip (lower ''Please prescribe something for my chest pain''))"
    by (simp add: trigger_search_def trigger_matches_here_def lower_def strip_def
        is_space_def lower_char_def char_of_def bit_Suc_0_iff word_boundary_def is_word_char_def)
  have c: "map_of (capabilities demo_config) ''EMERGENCY_REDIRECT''
             = Some (empty_cap\<lparr>cd_intent_class := Some ''CLASS_D'', cd_priority := Some 1\<rparr>)"
    by (simp add: demo_config_def)
  have i: "cd_intent_class (empty_cap\<lparr>cd_intent_class := Some ''CLASS_D'', cd_priority := Some 1\<rparr>)
             = Some ''CLASS_D''" by simp
  from emergency_first [OF k s c i] k s t c show ?thesis by blast
qed

section \<open>Properties of SafetyEnforcer\<close>

lemma refusal_from_selected:
  assumes "selected_refusal cfg ic cap = Some e" "re_messages e \<noteq> Some []"
  shows "\<exists>i. get_refusal_info cfg draw ic cap = Inr i
           \<and> ri_message i \<in> set (opt_default [default_refusal_message] (re_messages e))
           \<and> ri_refusal_code i = opt_default ''REF_UNKNOWN'' (re_refusal_code e)
           \<and> ri_handoff i = opt_default False (re_handoff e)
           \<and> ri_hard_stop i = opt_default False (re_hard_stop e)"
proof -
  let ?ms = "opt_default [default_refusal_message] (re_messages e)"
  have ne: "?ms \<noteq> []" using assms(2) by (auto simp: opt_default_def split: option.splits)
  then have "?ms ! (draw mod length ?ms) \<in> set ?ms" by simp
  with ne assms(1) show ?thesis
    by (auto simp: get_refusal_info_def selected_refusal_def random_choice_def Let_def
        split: if_splits option.splits)
qed

lemma refusal_default:
  assumes "selected_refusal cfg ic cap = None"
  shows "get_refusal_info cfg draw ic cap = Inr default_refusal"
  using assms
  by (auto simp: get_refusal_info_def selected_refusal_def Let_def split: if_splits option.splits)

text \<open>
  Claim C3. For intent class \<open>CLASS_C\<close> or \<open>CLASS_D\<close>, \<open>enforce\<close> answers \<open>safe = False\<close> with
  the intent class as the only violation and no blocked pattern, and the answer is the same
  for every text and every behaviour of the pattern search, so no rule pattern decides it.
  The message is one of those of the selected refusal entry (the entry under the intent class
  and the capability's refusal key, else for \<open>CLASS_D\<close> the \<open>EMERGENCY\<close> entry), and the
  refusal code, hand-off and hard-stop fields are that entry's; with no entry they are the
  hard-coded default refusal's. The configuration is assumed to give the selected entry no
  empty message list, from which \<open>random.choice\<close> could not draw.
\<close>

theorem mandatory_refusal:
  assumes "intent_cls = ''CLASS_C'' \<or> intent_cls = ''CLASS_D''"
    and "\<forall>e. selected_refusal cfg intent_cls capability_name = Some e \<longrightarrow> re_messages e \<noteq> Some []"
  shows "\<exists>r. enforce cfg re_search draw text capability_name intent_cls = Inr r
           \<and> enforce cfg re_search' draw text' capability_name intent_cls = Inr r
           \<and> sf_safe r = False \<and> sf_violations r = [intent_cls] \<and> sf_blocked_patterns r = []
           \<and> (case selected_refusal cfg intent_cls capability_name of
                 Some e \<Rightarrow>
                   sf_message r \<in> set (opt_default [default_refusal_message] (re_messages e))
                   \<and> sf_refusal_code r = opt_default ''REF_UNKNOWN'' (re_refusal_code e)
                   \<and> sf_handoff r = opt_default False (re_handoff e)
                   \<and> sf_hard_stop r = opt_default False (re_hard_stop e)
               | None \<Rightarrow>
                   sf_message r = default_refusal_message \<and> sf_refusal_code r = ''REF_GEN_001''
                   \<and> sf_handoff r = True \<and> sf_hard_stop r = False)"
proof (cases "selected_refusal cfg intent_cls capability_name")
  case None
  from refusal_default [OF None] assms(1) show ?thesis
    by (auto simp: enforce_def None default_refusal_def)
next
  case (Some e)
  with assms(2) have "re_messages e \<noteq> Some []" by simp
  from refusal_from_selected [OF Some this, of draw] assms(1) show ?thesis
    by (auto simp: enforce_def Some)
qed


theorem mandatory_refusal_witness:
  "selected_refusal demo_config ''CLASS_C'' ''PRESCRIPTION''
     = Some \<lparr>re_messages = Some [''I cannot suggest medicines.'', ''Medicines need a doctor.''],
             re_refusal_code = Some ''REF_MED_001'', re_handoff = Some True,
             re_hard_stop = None, re_extra = False\<rparr>
   \<and> (\<exists>r. enforce demo_config never_found 1 ''which medicine should I take'' ''PRESCRIPTION''
               ''CLASS_C'' = Inr r
          \<and> sf_safe r = False
          \<and> sf_message r \<in> {''I cannot suggest medicines.'', ''Medicines need a doctor.''}
          \<and> sf_refusal_code r = ''REF_MED_001'' \<and> sf_handoff r = True \<and> sf_hard_stop r = False)"
proof -
  have sel: "selected_refusal demo_config ''CLASS_C'' ''PRESCRIPTION''
     = Some \<lparr>re_messages = Some [''I cannot suggest medicines.'', ''Medicines need a doctor.''],
             re_refusal_code = Some ''REF_MED_001'', re_handoff = Some True,
             re_hard_stop = None, re_extra = False\<rparr>"
    by (simp add: selected_refusal_def demo_config_def cap_to_refusal_def)
  have c: "''CLASS_C'' = ''CLASS_C'' \<or> ''CLASS_C'' = ''CLASS_D''" by simp
  have wf: "\<forall>e. selected_refusal demo_config ''CLASS_C'' ''PRESCRIPTION'' = Some e
              \<longrightarrow> re_messages e \<noteq> Some []"
    by (simp add: sel)
  from mandatory_refusal [OF c wf, of never_found 1 "''which medicine should I take''"
      never_found "''which medicine should I take''"]
  show ?thesis by (auto simp: sel opt_default_def)
qed

section \<open>Properties of AstraPipeline\<close>






lemma save_audit_log_eq:
  "save_audit_log comps s =
     (if \<not> p_db comps then None else Some (audit_uuid comps),
      s\<lparr>rs_saves := rs_saves s @ [rs_log s]\<rparr>)"
  by (simp add: save_audit_log_def Let_def)

lemma save_audit_log_saves: "rs_saves (snd (save_audit_log comps s)) = rs_saves s @ [rs_log s]"
  by (simp add: save_audit_log_def Let_def)





























text \<open>
  Claim C4. When the rate-limit check of step 2 answers \<open>allowed = False\<close>, the run ends with
  the rate-limited response, \<open>identify_capability\<close> has not been called, and the one audit log
  saved holds the steps 1 and 2 only, with the blocked reason \<open>RATE_LIMIT_EXCEEDED\<close>;
  whatever the input text is.
\<close>

theorem rate_limit_first:
  assumes "rc_allowed (check_rate_limit comps user_id profile_id is_voice) = Some False"
  shows "rs_identify (snd (process comps cm cid now user_input user_id profile_id il is_voice md)) = []
       \<and> out_capability (fst (process comps cm cid now user_input user_id profile_id il is_voice md))
           = ''RATE_LIMITED''
       \<and> out_extra (fst (process comps cm cid now user_input user_id profile_id il is_voice md))
           = RateLimitExtra
       \<and> map al_blocked_reason
            (rs_saves (snd (process comps cm cid now user_input user_id profile_id il is_voice md)))
           = [Some ''RATE_LIMIT_EXCEEDED'']
       \<and> map al_steps
            (rs_saves (snd (process comps cm cid now user_input user_id profile_id il is_voice md)))
           = [[StepUserInput (length user_input) is_voice,
               StepRateLimit (check_rate_limit comps user_id profile_id is_voice)]]"
  using assms
  by (simp add: process_def process_body_def then_do_def append_step_def ret_def lift_def
      build_rate_limit_response_def save_audit_log_eq initial_run_state_def new_audit_log_def
      Let_def)

theorem rate_limit_first_witness:
  "rc_allowed (check_rate_limit demo_components ''u1'' ''p1'' False) = Some False
   \<and> (\<exists>r. identify_capability demo_config ''Please prescribe something for my chest pain'' = Inr r
          \<and> ir_capability r = ''EMERGENCY_REDIRECT'')
   \<and> rs_identify (snd (process demo_components (new_consent_manager False) ''c1'' 10
         ''Please prescribe something for my chest pain'' ''u1'' ''p1'' None False None)) = []
   \<and> out_capability (fst (process demo_components (new_consent_manager False) ''c1'' 10
         ''Please prescribe something for my chest pain'' ''u1'' ''p1'' None False None))
       = ''RATE_LIMITED''"
proof -
  have h: "rc_allowed (check_rate_limit demo_components ''u1'' ''p1'' False) = Some False"
    by (simp add: check_rate_limit_def demo_components_def guarded_def)
  have e: "\<exists>r. identify_capability demo_config ''Please prescribe something for my chest pain'' = Inr r
          \<and> ir_capability r = ''EMERGENCY_REDIRECT''"
    using emergency_detected [of "''chest pain''" "''Please prescribe something for my chest pain''"]
    by (simp add: emergency_keywords_def sublist_Cons_right identify_capability_def
        build_result_def cap_lookup_def demo_config_def)
  from rate_limit_first [OF h, of "new_consent_manager False" "''c1''" 10
      "''Please prescribe something for my chest pain''" None None] h e
  show ?thesis by simp
qed

lemma grant_keeps: "snd (grant_consent cm u p pu d now) = cm"
  by (simp add: grant_consent_def save_consent_to_db_def Let_def)

lemma revoke_keeps: "snd (revoke_consent cm u p pu now) = cm"
  by (simp add: revoke_consent_def revoke_consent_in_db_def Let_def)

lemma verify_empty_cache:
  assumes "consent_cache cm = Map.empty"
  shows "cm_verify_consent cm u p cap pu now = (astra_not_requested, cm)"
  using assms
  by (simp add: cm_verify_consent_def verify_consent_def verify_astra_consent_def
      get_consent_from_db_def cached_valid_def astra_not_requested_def Let_def)

lemma cm_step_keeps:
  assumes "consent_cache cm = Map.empty"
  shows "cm_step cm c = cm"
  using assms by (cases c) (simp_all add: grant_keeps revoke_keeps verify_empty_cache)

lemma cm_run_keeps:
  assumes "consent_cache cm = Map.empty"
  shows "foldl cm_step cm calls = cm"
  using assms by (induction calls) (simp_all add: cm_step_keeps)

lemma verify_step_empty:
  assumes "consent_cache (rs_consent s) = Map.empty"
  shows "verify_consent_step u p cap now s = (Inr astra_not_requested, s)"
  using assms by (simp add: verify_consent_step_def verify_empty_cache)

lemma from_capability_no_consent:
  assumes "consent_cache (rs_consent s) = Map.empty"
    and "\<not> list_ex is_consent_step (al_steps (rs_log s))"
    and "steps_from_capability comps u p md lang t k now s = (r, s')"
  shows "consent_cache (rs_consent s') = Map.empty \<and> rs_consent s' = rs_consent s
       \<and> (case r of
            Inl e \<Rightarrow> \<not> list_ex is_consent_step (al_steps (rs_log s'))
          | Inr resp \<Rightarrow> \<not> is_success (out_extra resp)
              \<and> (list_ex is_consent_step (al_steps (rs_log s')) \<longrightarrow>
                   out_capability resp = ''CONSENT_REQUIRED''
                 \<and> out_extra resp = ConsentExtra ASTRA_USAGE))"
  using assms
  by (auto simp: steps_from_capability_def then_do_def append_step_def update_log_def lift_def
      identify_step_def verify_step_empty astra_not_requested_def
      build_safety_blocked_response_def build_rules_blocked_response_def
      build_consent_required_response_def save_audit_log_eq Let_def
      split: sum.splits if_splits)


lemma body_no_consent:
  assumes c: "consent_cache (rs_consent s) = Map.empty"
    and n: "\<not> list_ex is_consent_step (al_steps (rs_log s))"
    and b: "process_body comps t u p il v md now s = (r, s')"
  shows "consent_cache (rs_consent s') = Map.empty \<and> rs_consent s' = rs_consent s
       \<and> (case r of
            Inl e \<Rightarrow> \<not> list_ex is_consent_step (al_steps (rs_log s'))
          | Inr resp \<Rightarrow> \<not> is_success (out_extra resp)
              \<and> (list_ex is_consent_step (al_steps (rs_log s')) \<longrightarrow>
                   out_capability resp = ''CONSENT_REQUIRED''
                 \<and> out_extra resp = ConsentExtra ASTRA_USAGE))"
proof -
  let ?rc = "check_rate_limit comps u p v"
  let ?s2 = "s\<lparr>rs_log := (rs_log s)\<lparr>al_steps := al_steps (rs_log s) @
                [StepUserInput (length t) v, StepRateLimit ?rc]\<rparr>\<rparr>"
  show ?thesis
  proof (cases "rc_allowed ?rc")
    case None
    with b c n show ?thesis
      by (auto simp: process_body_def then_do_def append_step_def ret_def lift_def)
  next
    case (Some a)
    show ?thesis
    proof (cases a)
      case False
      with Some b c n show ?thesis
        by (auto simp: process_body_def then_do_def append_step_def ret_def lift_def
            build_rate_limit_response_def save_audit_log_eq Let_def split: if_splits)
    next
      case True
      let ?lang = "if falsy il then detect_language comps t else the il"
      let ?norm = "if ?lang \<noteq> ''en'' then normalize_to_english comps t ?lang else t"
      let ?s4 = "s\<lparr>rs_language := Some ?lang,
                    rs_log := (rs_log s)\<lparr>al_steps := al_steps (rs_log s) @
                      [StepUserInput (length t) v, StepRateLimit ?rc, StepLanguage ?lang,
                       StepNormalization (length ?norm)]\<rparr>\<rparr>"
      from Some True b have "steps_from_capability comps u p md ?lang ?norm 5 now ?s4 = (r, s')"
        by (simp add: process_body_def then_do_def append_step_def ret_def lift_def Let_def)
      from from_capability_no_consent [OF _ _ this] c n show ?thesis by simp
    qed
  qed
qed

text \<open>
  Claim C10. A consent manager constructed without a database connection, after any sequence
  of verify, grant and revoke calls, answers every verification with \<open>granted = False\<close> and
  status \<open>NOT_REQUESTED\<close>, and its cache stays empty. A pipeline run with such a manager
  never ends in success, and a run that reaches the consent step (its audit log has the
  consent step) ends with the consent-required response for Astra usage.
\<close>

theorem no_database_no_consent:
  assumes "cm = foldl cm_step (new_consent_manager False) calls"
    and "process comps cm cid now user_input user_id profile_id il is_voice md = (resp, s)"
  shows "granted (fst (cm_verify_consent cm u p cap pu t)) = False
       \<and> status (fst (cm_verify_consent cm u p cap pu t)) = NOT_REQUESTED
       \<and> consent_cache (snd (cm_verify_consent cm u p cap pu t)) = Map.empty
       \<and> \<not> is_success (out_extra resp)
       \<and> (list_ex is_consent_step (al_steps (rs_log s)) \<longrightarrow>
             out_capability resp = ''CONSENT_REQUIRED'' \<and> out_extra resp = ConsentExtra ASTRA_USAGE)
       \<and> consent_cache (rs_consent s) = Map.empty"
proof -
  have cm: "cm = new_consent_manager False"
    using assms(1) cm_run_keeps [of "new_consent_manager False" calls]
    by (simp add: new_consent_manager_def)
  then have e: "consent_cache cm = Map.empty" by (simp add: new_consent_manager_def)
  let ?s0 = "initial_run_state cm cid now user_id profile_id is_voice"
  obtain r s' where b:
    "process_body comps user_input user_id profile_id il is_voice md now ?s0 = (r, s')"
    by (cases "process_body comps user_input user_id profile_id il is_voice md now ?s0")
  have h: "consent_cache (rs_consent ?s0) = Map.empty"
    "\<not> list_ex is_consent_step (al_steps (rs_log ?s0))"
    using e by (simp_all add: initial_run_state_def new_audit_log_def)
  from body_no_consent [OF h b] h(1)
  have post: "consent_cache (rs_consent s') = Map.empty"
    "case r of
       Inl e \<Rightarrow> \<not> list_ex is_consent_step (al_steps (rs_log s'))
     | Inr resp \<Rightarrow> \<not> is_success (out_extra resp)
         \<and> (list_ex is_consent_step (al_steps (rs_log s')) \<longrightarrow>
              out_capability resp = ''CONSENT_REQUIRED''
            \<and> out_extra resp = ConsentExtra ASTRA_USAGE)"
    by simp_all
  have "\<not> is_success (out_extra resp)
       \<and> (list_ex is_consent_step (al_steps (rs_log s)) \<longrightarrow>
             out_capability resp = ''CONSENT_REQUIRED'' \<and> out_extra resp = ConsentExtra ASTRA_USAGE)
       \<and> consent_cache (rs_consent s) = Map.empty"
  proof (cases r)
    case (Inl x)
    with post b assms(2) show ?thesis
      by (auto simp: process_def append_step_def save_audit_log_eq Let_def)
  next
    case (Inr x)
    with post b assms(2) show ?thesis by (auto simp: process_def)
  qed
  with e show ?thesis by (simp add: verify_empty_cache astra_not_requested_def)
qed

lemma demo_hello:
  "\<exists>r. identify_capability demo_config ''hello there'' = Inr r
       \<and> ir_capability r = ''GENERAL_WELLNESS_CHAT'' \<and> ir_intent_class r = ''CLASS_A''"
  by (simp add: identify_capability_def is_emergency_def emergency_keywords_def strip_def lower_def
      lower_char_def char_of_def bit_Suc_0_iff is_space_def sublist_Cons_right check_forbidden_def forbidden_patterns_def
      demo_config_def empty_cap_def is_forbidden_def_def opt_default_def trigger_search_def
      trigger_matches_here_def match_triggers_def trigger_patterns_def
      build_result_def cap_lookup_def word_boundary_def is_word_char_def)

lemma demo_hello_run:
  "list_ex is_consent_step (al_steps (rs_log (snd (process demo_open_components
      (foldl cm_step (new_consent_manager False) [CallGrant ''u1'' ''p1'' ''astra_usage'' 365 0])
      ''c1'' 10 ''hello there'' ''u1'' ''p1'' None False None))))"
proof -
  from demo_hello obtain r where r: "identify_capability demo_config ''hello there'' = Inr r"
    "ir_capability r = ''GENERAL_WELLNESS_CHAT''" "ir_intent_class r = ''CLASS_A''" by blast
  have s: "enforce demo_config never_found 0 ''hello there'' ''GENERAL_WELLNESS_CHAT'' ''CLASS_A''
     = Inr \<lparr>sf_safe = True, sf_violations = [], sf_message = [], sf_blocked_patterns = [],
                    sf_intent_class = ''CLASS_A'', sf_handoff = False, sf_hard_stop = False,
                    sf_refusal_code = []\<rparr>"
    by (simp add: enforce_def demo_config_def cap_def_falsy_def rule_hits_def never_found_def
        opt_default_def empty_cap_def)
  have c: "foldl cm_step (new_consent_manager False) [CallGrant ''u1'' ''p1'' ''astra_usage'' 365 0]
            = new_consent_manager False"
    by (simp add: grant_keeps)
  show ?thesis
    by (simp add: c grant_keeps process_def process_body_def steps_from_capability_def then_do_def
        append_step_def ret_def lift_def update_log_def identify_step_def
        demo_open_components_def demo_components_def check_rate_limit_def detect_language_def
        initial_run_state_def new_audit_log_def r s verify_step_empty new_consent_manager_def
        astra_not_requested_def build_consent_required_response_def save_audit_log_eq Let_def)
qed

theorem no_database_no_consent_witness:
  "list_ex is_consent_step (al_steps (rs_log (snd (process demo_open_components
      (foldl cm_step (new_consent_manager False) [CallGrant ''u1'' ''p1'' ''astra_usage'' 365 0])
      ''c1'' 10 ''hello there'' ''u1'' ''p1'' None False None))))
   \<and> out_capability (fst (process demo_open_components
      (foldl cm_step (new_consent_manager False) [CallGrant ''u1'' ''p1'' ''astra_usage'' 365 0])
      ''c1'' 10 ''hello there'' ''u1'' ''p1'' None False None)) = ''CONSENT_REQUIRED''
   \<and> status (fst (cm_verify_consent
      (foldl cm_step (new_consent_manager False) [CallGrant ''u1'' ''p1'' ''astra_usage'' 365 0])
      ''u1'' ''p1'' ''GENERAL_WELLNESS_CHAT'' None 10)) = NOT_REQUESTED"
  using no_database_no_consent
      [where calls = "[CallGrant ''u1'' ''p1'' ''astra_usage'' 365 0]"
         and comps = demo_open_components and cid = "''c1''" and now = 10
         and user_input = "''hello there''" and user_id = "''u1''" and profile_id = "''p1''"
         and il = None and is_voice = False and md = None and u = "''u1''" and p = "''p1''"
         and cap = "''GENERAL_WELLNESS_CHAT''" and pu = None and t = 10,
       OF refl prod.collapse [symmetric]]
    demo_hello_run
  by blast





section \<open>Properties of ResponseSanitizer\<close>

lemmas rx_eval = rx_search_def rx_sub_def phrase_then_word_def words_rx_def lower_char_def
  char_of_def bit_Suc_0_iff word_boundary_def is_word_char_def is_space_def is_digit_def Let_def

lemmas text_eval = once_sanitized_def once_more_replaced_def twice_sanitized_def
  disclaimer_medical_advice_def blank_line_def warning_sign_def

lemmas pattern_eval = apply_pattern_def diagnosis_pattern_1_def diagnosis_pattern_2_def
  prescription_pattern_1_def prescription_pattern_2_def treatment_pattern_def
  prognosis_pattern_def

lemma hello_patterns: "apply_unsafe_patterns ''Hello'' = ''Hello''"
  by (simp add: apply_unsafe_patterns_def unsafe_patterns_def pattern_eval rx_eval)

lemma hello_emergency: "\<not> contains_emergency_keywords ''Hello''"
  by (simp add: contains_emergency_keywords_def rx_eval)

lemma hello_disclaimer: "\<not> sublist disclaimer_medical_advice ''Hello''"
  by (simp add: text_eval sublist_Cons_right)

lemma first_pass:
  "sanitize None never_found ''Hello'' (Some [''must_recommend_doctor'']) = once_sanitized"
  by (simp add: sanitize_def hello_patterns hello_emergency hello_disclaimer append_once_def
      opt_default_def once_sanitized_def)

lemma a1: "apply_pattern diagnosis_pattern_1 once_sanitized = once_more_replaced"
  by (simp add: pattern_eval rx_eval text_eval)

lemma a2: "apply_pattern diagnosis_pattern_2 once_more_replaced = once_more_replaced"
  by (simp add: pattern_eval rx_eval text_eval)

lemma a3: "apply_pattern prescription_pattern_1 once_more_replaced = once_more_replaced"
  by (simp add: pattern_eval rx_eval text_eval)

lemma a4: "apply_pattern prescription_pattern_2 once_more_replaced = once_more_replaced"
  by (simp add: pattern_eval rx_eval text_eval)

lemma a5: "apply_pattern treatment_pattern once_more_replaced = once_more_replaced"
  by (simp add: pattern_eval rx_eval text_eval)

lemma a6: "apply_pattern prognosis_pattern once_more_replaced = once_more_replaced"
  by (simp add: pattern_eval rx_eval text_eval)

lemma second_patterns: "apply_unsafe_patterns once_sanitized = once_more_replaced"
  by (simp add: apply_unsafe_patterns_def unsafe_patterns_def a1 a2 a3 a4 a5 a6)

lemma second_disclaimer: "\<not> sublist disclaimer_medical_advice once_more_replaced"
  by (simp add: text_eval sublist_Cons_right)

lemma second_emergency: "\<not> contains_emergency_keywords once_sanitized"
  by (simp add: contains_emergency_keywords_def rx_eval text_eval)

lemma second_pass:
  "sanitize None never_found once_sanitized (Some [''must_recommend_doctor'']) = twice_sanitized"
  by (simp add: sanitize_def second_patterns second_emergency second_disclaimer append_once_def
      opt_default_def twice_sanitized_def)

lemma twice_differs: "twice_sanitized \<noteq> once_sanitized"
  by (simp add: text_eval)

text \<open>
  Claim C8 does not hold of the code. The disclaimer that \<open>sanitize\<close> appends for the rule
  \<open>must_recommend_doctor\<close> begins \<open>This is not medical advice\<close>, and the first diagnosis
  pattern matches \<open>This is not\<close>. So a second call on the sanitized answer \<open>Hello\<close> rewrites
  the disclaimer of the first call, no longer finds it in the text, and appends it again: the
  result of the second call differs from that of the first and carries the disclaimer text
  twice over.
\<close>

theorem sanitize_twice_differs:
  "sanitize None never_found ''Hello'' (Some [''must_recommend_doctor'']) = once_sanitized
   \<and> sanitize None never_found
        (sanitize None never_found ''Hello'' (Some [''must_recommend_doctor'']))
        (Some [''must_recommend_doctor'']) = twice_sanitized
   \<and> twice_sanitized \<noteq> once_sanitized"
  by (simp only: first_pass second_pass twice_differs simp_thms)

end
